theory Spec2Isabelle
  imports Complex_Main "HOL-Library.AList"
begin

section \<open>Build or Boom card creator: a shallow embedding of script.js\<close>

subsection \<open>JavaScript numbers\<close>

text \<open>
  A JavaScript Number is modelled as \<open>real option\<close>: \<open>Some v\<close> is the finite value
  \<open>v\<close> in exact arithmetic, \<open>None\<close> is NaN. NaN arises in script.js only where
  a property that does not exist (\<open>undefined\<close>) enters an arithmetic expression.
  Rounding of IEEE doubles and the infinities are outside the model.
  Every arithmetic operator and \<open>Math.max\<close>, \<open>Math.min\<close> yield NaN as soon as an
  operand is NaN.
\<close>

type_synonym num = "real option"

definition num2 :: "(real \<Rightarrow> real \<Rightarrow> real) \<Rightarrow> num \<Rightarrow> num \<Rightarrow> num" where
  "num2 f a b =
     (case a of None \<Rightarrow> None
      | Some x \<Rightarrow> (case b of None \<Rightarrow> None | Some y \<Rightarrow> Some (f x y)))"

text \<open>\<open>Math.round\<close>: the nearest integer, a tie going towards plus infinity.\<close>

definition Math_round :: "num \<Rightarrow> num" where
  "Math_round a = map_option (\<lambda>x. real_of_int \<lfloor>x + 1 / 2\<rfloor>) a"

definition Math_abs :: "num \<Rightarrow> num" where
  "Math_abs a = map_option abs a"

definition Math_max :: "num \<Rightarrow> num \<Rightarrow> num" where
  "Math_max a b = num2 max a b"

definition Math_min :: "num \<Rightarrow> num \<Rightarrow> num" where
  "Math_min a b = num2 min a b"

text \<open>The comparison \<open>a > b\<close>: false when an operand is NaN.\<close>

definition num_gt :: "num \<Rightarrow> num \<Rightarrow> bool" where
  "num_gt a b = (case a of None \<Rightarrow> False
                 | Some x \<Rightarrow> (case b of None \<Rightarrow> False | Some y \<Rightarrow> x > y))"

subsection \<open>CONFIG\<close>

definition GRID_SIZE :: real where
  "GRID_SIZE = 20"

definition DRAG_THRESHOLD :: real where
  "DRAG_THRESHOLD = 5"

subsection \<open>Utils.snapToGrid\<close>

text \<open>
  \<^verbatim>\<open>snapToGrid(value) { const snapped = Math.round(value / CONFIG.GRID_SIZE) * CONFIG.GRID_SIZE; ... return snapped; }\<close>
  The console output of the function is not part of the model.
\<close>

definition snapToGrid :: "num \<Rightarrow> num" where
  "snapToGrid v = num2 times (Math_round (num2 (/) v (Some GRID_SIZE))) (Some GRID_SIZE)"

subsection \<open>Object literals used as lookup tables\<close>

text \<open>
  \<open>CONFIG.SHAPE_SIZES\<close> and \<open>SHAPE_NAMES\<close> are object literals read with
  \<open>table[key] || fallback\<close>. A property read on an object literal finds the object's
  own keys first and then the members every object inherits from \<open>Object.prototype\<close>;
  the inherited members are functions (and, for \<open>__proto__\<close>, an object), all truthy,
  so \<open>||\<close> does not replace them by the fallback.
\<close>

definition Object_prototype_keys :: "string list" where
  "Object_prototype_keys =
     [''constructor'', ''hasOwnProperty'', ''isPrototypeOf'', ''propertyIsEnumerable'',
      ''toLocaleString'', ''toString'', ''valueOf'', ''__proto__'',
      ''__defineGetter__'', ''__defineSetter__'', ''__lookupGetter__'', ''__lookupSetter__'']"

datatype 'a lookup = Own 'a | Inherited string | Undefined

definition get_prop :: "(string \<times> 'a) list \<Rightarrow> string \<Rightarrow> 'a lookup" where
  "get_prop obj k =
     (case map_of obj k of
        Some v \<Rightarrow> Own v
      | None \<Rightarrow> if k \<in> set Object_prototype_keys then Inherited k else Undefined)"

definition SHAPE_SIZES :: "(string \<times> real \<times> real) list" where
  "SHAPE_SIZES =
     [(''square'', 80, 80), (''triangle'', 80, 80), (''half-moon'', 80, 80),
      (''cone'', 80, 40), (''2x4'', 240, 80), (''arch'', 240, 80), (''beam'', 240, 80),
      (''foreman'', 160, 160), (''barrel-cylinder'', 80, 160), (''barrel-circle'', 80, 80)]"

definition SHAPE_NAMES :: "(string \<times> string) list" where
  "SHAPE_NAMES =
     [(''2x4'', ''2x4''), (''triangle'', ''Triangle''), (''arch'', ''Arch''),
      (''barrel-cylinder'', ''Barrel''), (''barrel-circle'', ''Barrel''),
      (''half-moon'', ''Half Moon''), (''cone'', ''Cone''), (''beam'', ''Beam''),
      (''square'', ''Square''), (''foreman'', ''The Foreman'')]"

text \<open>
  \<^verbatim>\<open>const shapeSize = CONFIG.SHAPE_SIZES[shapeType] || { width: 80, height: 80 };\<close>
  The pair is what \<open>shapeSize.width\<close> and \<open>shapeSize.height\<close> give in arithmetic:
  an inherited member has neither property, and \<open>undefined\<close> in arithmetic is NaN.
\<close>

definition shapeSize :: "string \<Rightarrow> num \<times> num" where
  "shapeSize shapeType =
     (case get_prop SHAPE_SIZES shapeType of
        Own (w, h) \<Rightarrow> (Some w, Some h)
      | Inherited k \<Rightarrow> (None, None)
      | Undefined \<Rightarrow> (Some 80, Some 80))"

text \<open>
  A property key of the \<open>counts\<close> object: a string, or the string form of the
  member of \<open>Object.prototype\<close> with the given name (implementation-defined text such
  as \<open>function Object() { [native code] }\<close>, different from every display name).
\<close>

datatype prop_key = Str string | Member string

text \<open>\<^verbatim>\<open>const displayName = SHAPE_NAMES[shapeType] || 'Unknown';\<close>\<close>

definition displayName :: "string \<Rightarrow> prop_key" where
  "displayName shapeType =
     (case get_prop SHAPE_NAMES shapeType of
        Own n \<Rightarrow> if n = [] then Str ''Unknown'' else Str n
      | Inherited k \<Rightarrow> Member k
      | Undefined \<Rightarrow> Str ''Unknown'')"

subsection \<open>The document\<close>

text \<open>
  An element of the document that carries a \<open>data-shape\<close> attribute or the class
  \<open>shape-item\<close> (a palette item): \<open>data_shape\<close> is \<open>dataset.shape\<close>
  (\<open>None\<close> when the attribute is absent) and \<open>shape_svg\<close> is the \<open>innerHTML\<close> of
  its first descendant of class \<open>shape-svg\<close> (\<open>None\<close> when there is none).
  The opacity and scale feedback the handlers put on a palette item is not modelled.
\<close>

record palette_item =
  data_shape :: "string option"
  shape_svg :: "string option"

record rect =
  rect_left :: real
  rect_top :: real
  rect_right :: real
  rect_bottom :: real
  rect_width :: real
  rect_height :: real

text \<open>
  The element \<open>#build-area\<close>: the result of \<open>getBoundingClientRect()\<close> and
  \<open>clientWidth\<close> (an integer in the DOM). It is the \<open>container\<close> of every call
  of \<open>createShape\<close> and of every \<open>ShapeController\<close>.
\<close>

record build_area =
  boundingClientRect :: rect
  clientWidth :: int

text \<open>
  A placed shape, the \<open>div.dropped-shape\<close> element: \<open>dataset.shapeType\<close>, the
  inline styles \<open>left\<close> and \<open>top\<close> in px (\<open>None\<close> while unset), \<open>cursor\<close>
  and \<open>zIndex\<close>, \<open>dataset.rotation\<close>, \<open>dataset.flippedH\<close>,
  \<open>dataset.flippedV\<close>, the inline \<open>transform\<close> and \<open>transformOrigin\<close> of its
  \<open>svg\<close> child, and whether it has the class \<open>selected\<close>. The markup inside the
  \<open>svg\<close> (\<open>createUniqueSvg\<close>) and the random element id are not modelled.
\<close>

record element =
  dataset_shapeType :: string
  style_left :: "real option"
  style_top :: "real option"
  style_cursor :: string
  style_zIndex :: string
  dataset_rotation :: "string option"
  dataset_flippedH :: "string option"
  dataset_flippedV :: "string option"
  svg_transform :: string
  svg_transformOrigin :: string
  class_selected :: bool

text \<open>
  An assignment \<open>style.left = `${v}px`\<close>: the text \<open>NaNpx\<close> is not a CSS length,
  and the browser then keeps the previous value.
\<close>

definition set_px :: "num \<Rightarrow> real option \<Rightarrow> real option" where
  "set_px v old = (case v of None \<Rightarrow> old | Some x \<Rightarrow> Some x)"

subsection \<open>SupplyListManager\<close>

text \<open>
  \<^verbatim>\<open>counts[displayName] = (counts[displayName] || 0) + 1;\<close>
  The object \<open>counts\<close> is an association list in insertion order, the order in which
  \<open>Object.entries\<close> lists it.
\<close>

definition count_step :: "(prop_key \<times> nat) list \<Rightarrow> element \<Rightarrow> (prop_key \<times> nat) list" where
  "count_step counts shape =
     (let name = displayName (dataset_shapeType shape)
      in AList.update name
           ((case map_of counts name of None \<Rightarrow> 0 | Some c \<Rightarrow> c) + 1) counts)"

definition countShapes :: "element list \<Rightarrow> (prop_key \<times> nat) list" where
  "countShapes shapes = foldl count_step [] shapes"

subsection \<open>Strings: number formatting, parseInt and the two regular expressions\<close>

text \<open>Strings are ASCII. \<open>show_int\<close> is the decimal text of an integer Number.\<close>

definition digit_char :: "nat \<Rightarrow> char" where
  "digit_char n = ''0123456789'' ! n"

fun show_nat :: "nat \<Rightarrow> string" where
  "show_nat n = (if n < 10 then [digit_char n] else show_nat (n div 10) @ [digit_char (n mod 10)])"

declare show_nat.simps [simp del]

definition show_int :: "int \<Rightarrow> string" where
  "show_int i = (if i < 0 then CHR ''-'' # show_nat (nat (- i)) else show_nat (nat i))"

text \<open>The text of an integer-valued Number or NaN in a template literal.\<close>

definition int_str :: "int option \<Rightarrow> string" where
  "int_str v = (case v of None \<Rightarrow> ''NaN'' | Some i \<Rightarrow> show_int i)"

definition is_StrWhiteSpaceChar :: "char \<Rightarrow> bool" where
  "is_StrWhiteSpaceChar c =
     (c = CHR 0x09 \<or> c = CHR 0x0A \<or> c = CHR 0x0B \<or> c = CHR 0x0C \<or> c = CHR 0x0D \<or> c = CHR 0x20)"

definition digit_value :: "char \<Rightarrow> nat option" where
  "digit_value c =
     (let n = (of_char c :: nat)
      in if 48 \<le> n \<and> n \<le> 57 then Some (n - 48)
         else if 97 \<le> n \<and> n \<le> 122 then Some (n - 87)
         else if 65 \<le> n \<and> n \<le> 90 then Some (n - 55)
         else None)"

definition radix_digit :: "nat \<Rightarrow> char \<Rightarrow> bool" where
  "radix_digit R c = (case digit_value c of None \<Rightarrow> False | Some d \<Rightarrow> d < R)"

text \<open>
  \<open>parseInt(string)\<close> without a radix: leading white space is skipped, a sign is
  read, the prefix \<open>0x\<close> or \<open>0X\<close> selects radix 16, and the longest run of digits
  is the value; NaN (\<open>None\<close>) when there is no digit.
\<close>

definition parseInt :: "string \<Rightarrow> int option" where
  "parseInt string =
     (let S = dropWhile is_StrWhiteSpaceChar string;
          neg = (take 1 S = ''-'');
          S1 = (if take 1 S = ''+'' \<or> take 1 S = ''-'' then drop 1 S else S);
          hex = (take 2 S1 = ''0x'' \<or> take 2 S1 = ''0X'');
          R = (if hex then 16 else 10);
          S2 = (if hex then drop 2 S1 else S1);
          Z = takeWhile (radix_digit R) S2
      in if Z = [] then None
         else Some ((if neg then - 1 else 1) *
                int (foldl (\<lambda>a c. a * R + (case digit_value c of None \<Rightarrow> 0 | Some d \<Rightarrow> d)) 0 Z)))"

text \<open>The remainder operator \<open>%\<close> on integers: the result has the sign of the dividend.\<close>

definition js_rem :: "int \<Rightarrow> int \<Rightarrow> int" where
  "js_rem a b = (if a < 0 then - ((- a) mod \<bar>b\<bar>) else a mod \<bar>b\<bar>)"

text \<open>
  The regular expressions of \<open>flip\<close> are written in script.js as
  \<^verbatim>\<open>/rotate\\(([^)]+)\\)/\<close> and \<^verbatim>\<open>/scale\\(([^)]+)\\)/\<close>. In a regular expression
  literal \<^verbatim>\<open>\\\<close> is an escaped backslash and the parentheses that follow are
  grouping parentheses: the pattern is the name, a backslash character, and group 1, which
  is group 2 (one or more characters other than a closing parenthesis, greedy) followed by
  a backslash character. \<open>regex_match name s\<close> is group 1 of the leftmost match in
  \<open>s\<close>, the value of \<open>match[1]\<close>, or \<open>None\<close> when \<open>match\<close> returns null.
\<close>

definition backslash :: char where
  "backslash = CHR 0x5C"

definition group_at :: "string \<Rightarrow> string option" where
  "group_at rest =
     (let run = takeWhile (\<lambda>c. c \<noteq> CHR '')'') rest;
          ends = filter (\<lambda>j. 1 \<le> j \<and> run ! j = backslash) [0..<length run]
      in if ends = [] then None else Some (take (last ends + 1) run))"

fun regex_match :: "string \<Rightarrow> string \<Rightarrow> string option" where
  "regex_match name [] = None"
| "regex_match name (c # cs) =
     (if take (length name + 1) (c # cs) = name @ [backslash]
      then (case group_at (drop (length name + 1) (c # cs)) of
              Some g \<Rightarrow> Some g
            | None \<Rightarrow> regex_match name cs)
      else regex_match name cs)"

text \<open>\<open>split(',')\<close> and \<open>trim()\<close>.\<close>

fun split_comma :: "string \<Rightarrow> string list" where
  "split_comma [] = [[]]"
| "split_comma (c # cs) =
     (if c = CHR '','' then [] # split_comma cs
      else (case split_comma cs of [] \<Rightarrow> [[c]] | w # ws \<Rightarrow> (c # w) # ws))"

definition trim :: "string \<Rightarrow> string" where
  "trim s = rev (dropWhile is_StrWhiteSpaceChar (rev (dropWhile is_StrWhiteSpaceChar s)))"

text \<open>An exception a handler of script.js can raise and does not catch.\<close>

datatype js_error = SyntaxError

text \<open>
  \<open>parseFloat\<close> and the text of a Number that is not an integer are functions of the
  browser on IEEE doubles; the model takes them as parameters. So it does the result of
  \<open>document.querySelector\<close> for a selector text outside the two cases written out in
  \<open>querySelector_data_shape\<close> below (\<open>other_selector\<close>: the element found, null,
  or the exception).
\<close>

record platform =
  parseFloat :: "string \<Rightarrow> num"
  fraction_str :: "real \<Rightarrow> string"
  other_selector :: "string \<Rightarrow> palette_item list \<Rightarrow> js_error + palette_item option"

definition num_str :: "platform \<Rightarrow> num \<Rightarrow> string" where
  "num_str P v =
     (case v of
        None \<Rightarrow> ''NaN''
      | Some x \<Rightarrow> if x = real_of_int \<lfloor>x\<rfloor> then show_int \<lfloor>x\<rfloor> else fraction_str P x)"

text \<open>\<open>a || b\<close> for a Number or \<open>undefined\<close> \<open>a\<close>: NaN, \<open>undefined\<close> and 0 are falsy.\<close>

definition num_or :: "num \<Rightarrow> num \<Rightarrow> num" where
  "num_or a b = (case a of None \<Rightarrow> b | Some x \<Rightarrow> if x = 0 then b else Some x)"

text \<open>An array element; \<open>undefined\<close> beyond the end is read as \<open>None\<close>.\<close>

definition at_index :: "num list \<Rightarrow> nat \<Rightarrow> num" where
  "at_index xs i = (if i < length xs then xs ! i else None)"

definition num_lt :: "num \<Rightarrow> num \<Rightarrow> bool" where
  "num_lt a b = (case a of None \<Rightarrow> False
                 | Some x \<Rightarrow> (case b of None \<Rightarrow> False | Some y \<Rightarrow> x < y))"

subsection \<open>ShapeFactory\<close>

record shape_definition =
  def_svg :: string
  def_width :: num
  def_height :: num

text \<open>
  \<^verbatim>\<open>document.querySelector(`[data-shape="${shapeType}"]`)\<close>. The type is pasted
  into the selector unescaped, between double quotes. Inside a CSS string a double quote
  ends the string, a backslash starts an escape, and a line feed, form feed or carriage
  return breaks the string (NUL is replaced).
  \<^item> A type without any of these characters (\<open>selector_plain\<close>) gives the selector
    that matches the first element of the document whose \<open>data-shape\<close> attribute
    equals the type.
  \<^item> A type without backslash, line break or NUL whose first double quote is directly
    followed by a letter other than \<open>i\<close> and \<open>s\<close> (\<open>selector_broken\<close>, for
    example \<open>a"b\<close>) gives a text that is no selector: after the attribute value comes
    an identifier that is no attribute modifier. \<open>querySelector\<close> throws
    \<open>SyntaxError\<close>, which nothing in script.js catches.
  \<^item> For every other type the text may be some other selector or none; the result is
    the parameter \<open>other_selector\<close>.
\<close>

definition selector_special_char :: "char \<Rightarrow> bool" where
  "selector_special_char c =
     (c = CHR 0x22 \<or> c = backslash \<or> c = CHR 0x0A \<or> c = CHR 0x0C \<or> c = CHR 0x0D \<or> c = CHR 0x00)"

definition selector_plain :: "string \<Rightarrow> bool" where
  "selector_plain shapeType = (\<not> list_ex selector_special_char shapeType)"

definition is_letter :: "char \<Rightarrow> bool" where
  "is_letter c =
     (let n = (of_char c :: nat) in (97 \<le> n \<and> n \<le> 122) \<or> (65 \<le> n \<and> n \<le> 90))"

definition selector_broken :: "string \<Rightarrow> bool" where
  "selector_broken shapeType =
     (\<not> list_ex (\<lambda>c. selector_special_char c \<and> c \<noteq> CHR 0x22) shapeType \<and>
      (case dropWhile (\<lambda>c. c \<noteq> CHR 0x22) shapeType of
         q # c # rest \<Rightarrow>
           is_letter c \<and> c \<noteq> CHR ''i'' \<and> c \<noteq> CHR ''s'' \<and> c \<noteq> CHR ''I'' \<and> c \<noteq> CHR ''S''
       | _ \<Rightarrow> False))"

definition querySelector_data_shape :: "platform \<Rightarrow> palette_item list \<Rightarrow> string \<Rightarrow> js_error + palette_item option" where
  "querySelector_data_shape P doc shapeType =
     (if selector_plain shapeType then Inr (find (\<lambda>p. data_shape p = Some shapeType) doc)
      else if selector_broken shapeType then Inl SyntaxError
      else other_selector P shapeType doc)"

text \<open>
  \<open>ShapeFactory.getDefinition\<close> and \<open>ShapeFactory.create\<close>: \<open>Inl\<close> is the
  exception passing through, \<open>Inr None\<close> the return value null.
\<close>

definition getDefinition :: "platform \<Rightarrow> palette_item list \<Rightarrow> string \<Rightarrow> js_error + shape_definition option" where
  "getDefinition P doc shapeType =
     (case querySelector_data_shape P doc shapeType of
        Inl e \<Rightarrow> Inl e
      | Inr None \<Rightarrow> Inr None
      | Inr (Some paletteItem) \<Rightarrow>
          (case shape_svg paletteItem of
             None \<Rightarrow> Inr None
           | Some svg \<Rightarrow>
               Inr (Some \<lparr>def_svg = svg,
                          def_width = fst (shapeSize shapeType),
                          def_height = snd (shapeSize shapeType)\<rparr>)))"

definition create :: "platform \<Rightarrow> palette_item list \<Rightarrow> string \<Rightarrow> num \<Rightarrow> num \<Rightarrow> build_area \<Rightarrow> js_error + element option" where
  "create P doc shapeType x y container =
     (case getDefinition P doc shapeType of
        Inl e \<Rightarrow> Inl e
      | Inr None \<Rightarrow> Inr None
      | Inr (Some shapeData) \<Rightarrow>
          (let rawBoundedX =
                 Math_max (Some 0)
                   (Math_min x (num2 (-) (Some (real_of_int (clientWidth container)))
                                         (def_width shapeData)));
               rawBoundedY = Math_max (Some 0) y;
               snappedX = snapToGrid rawBoundedX;
               snappedY = snapToGrid rawBoundedY
           in Inr (Some \<lparr>dataset_shapeType = shapeType,
                         style_left = set_px snappedX None,
                         style_top = set_px snappedY None,
                         style_cursor = [],
                         style_zIndex = [],
                         dataset_rotation = None,
                         dataset_flippedH = None,
                         dataset_flippedV = None,
                         svg_transform = [],
                         svg_transformOrigin = [],
                         class_selected = False\<rparr>)))"

subsection \<open>Rotate and flip\<close>

text \<open>
  \<open>ShapeController.rotate\<close>. An assignment to \<open>svg.style.transform\<close> stores the
  text, which is what the browser returns for the values script.js assigns.
\<close>

definition rotate_shape :: "element \<Rightarrow> element" where
  "rotate_shape el =
     (let currentRotation0 =
            parseInt (case dataset_rotation el of
                        None \<Rightarrow> ''0''
                      | Some s \<Rightarrow> if s = [] then ''0'' else s);
          currentRotation = map_option (\<lambda>r. js_rem (r + 90) 360) currentRotation0
      in el\<lparr>dataset_rotation := Some (int_str currentRotation),
            svg_transform := ''rotate('' @ int_str currentRotation @ ''deg)'',
            svg_transformOrigin := ''center center''\<rparr>)"

text \<open>The \<open>rotate\<close> of \<open>ContextMenuManager.getShapeController\<close>: the same statements.\<close>

definition menu_rotate :: "element \<Rightarrow> element" where
  "menu_rotate el =
     (let currentRotation0 =
            parseInt (case dataset_rotation el of
                        None \<Rightarrow> ''0''
                      | Some s \<Rightarrow> if s = [] then ''0'' else s);
          currentRotation = map_option (\<lambda>r. js_rem (r + 90) 360) currentRotation0
      in el\<lparr>dataset_rotation := Some (int_str currentRotation),
            svg_transform := ''rotate('' @ int_str currentRotation @ ''deg)'',
            svg_transformOrigin := ''center center''\<rparr>)"

text \<open>
  \<^verbatim>\<open>const scaleValues = scaleMatch[1].split(',').map(v => parseFloat(v.trim()));\<close>
\<close>

definition scaleValues :: "platform \<Rightarrow> string \<Rightarrow> num list" where
  "scaleValues P g = map (\<lambda>v. parseFloat P (trim v)) (split_comma g)"

text \<open>
  The part of \<open>flip\<close> that \<open>ShapeController.flip\<close> and the flip of the context menu
  share: the rotation text and the two scale factors after the flip.
\<close>

definition flip_parts :: "platform \<Rightarrow> string \<Rightarrow> string \<Rightarrow> string \<times> num \<times> num" where
  "flip_parts P direction currentTransform =
     (let rotateMatch = regex_match ''rotate'' currentTransform;
          scaleMatch = regex_match ''scale'' currentTransform;
          rotation = (case rotateMatch of Some g \<Rightarrow> g | None \<Rightarrow> ''0deg'');
          scaleX0 = (case scaleMatch of
                       None \<Rightarrow> Some 1
                     | Some g \<Rightarrow> num_or (at_index (scaleValues P g) 0) (Some 1));
          scaleY0 = (case scaleMatch of
                       None \<Rightarrow> Some 1
                     | Some g \<Rightarrow> num_or (at_index (scaleValues P g) 1) scaleX0);
          scaleX = (if direction = ''horizontal'' then num2 times scaleX0 (Some (- 1)) else scaleX0);
          scaleY = (if direction = ''horizontal'' then scaleY0
                    else if direction = ''vertical'' then num2 times scaleY0 (Some (- 1))
                    else scaleY0)
      in (rotation, scaleX, scaleY))"

definition transform_text :: "platform \<Rightarrow> string \<times> num \<times> num \<Rightarrow> string" where
  "transform_text P parts =
     (case parts of (rotation, scaleX, scaleY) \<Rightarrow>
        ''rotate('' @ rotation @ '') scale('' @ num_str P scaleX @ '', '' @ num_str P scaleY @ '')'')"

definition flip :: "platform \<Rightarrow> string \<Rightarrow> element \<Rightarrow> element" where
  "flip P direction el =
     (let parts = flip_parts P direction (svg_transform el);
          scaleX = fst (snd parts);
          scaleY = snd (snd parts);
          el1 = (if direction = ''horizontal''
                 then el\<lparr>dataset_flippedH :=
                           Some (if num_lt scaleX (Some 0) then ''true'' else ''false'')\<rparr>
                 else if direction = ''vertical''
                 then el\<lparr>dataset_flippedV :=
                           Some (if num_lt scaleY (Some 0) then ''true'' else ''false'')\<rparr>
                 else el)
      in el1\<lparr>svg_transform := transform_text P parts,
             svg_transformOrigin := ''center center''\<rparr>)"

definition menu_flip :: "platform \<Rightarrow> string \<Rightarrow> element \<Rightarrow> element" where
  "menu_flip P direction el =
     el\<lparr>svg_transform := transform_text P (flip_parts P direction (svg_transform el)),
        svg_transformOrigin := ''center center''\<rparr>"

subsection \<open>ShapeController: moving a placed shape\<close>

text \<open>
  A mouse or touch event as the handlers read it: whether it has a \<open>touches\<close> list,
  and the coordinates \<open>e.touches ? e.touches[0].clientX : e.clientX\<close> (and Y).
\<close>

record pointer_event =
  is_touch :: bool
  ev_clientX :: real
  ev_clientY :: real

record ShapeController =
  sc_isDragging :: bool
  sc_hasDragged :: bool
  sc_startEvent :: "pointer_event option"
  sc_startX :: num
  sc_startY :: num
  sc_initialX :: num
  sc_initialY :: num

text \<open>The state the constructor leaves; fields not yet assigned are \<open>undefined\<close>.\<close>

definition new_ShapeController :: ShapeController where
  "new_ShapeController =
     \<lparr>sc_isDragging = False, sc_hasDragged = False, sc_startEvent = None,
      sc_startX = None, sc_startY = None, sc_initialX = None, sc_initialY = None\<rparr>"

text \<open>
  \<open>parseInt(this.element.style.left)\<close>: NaN for the empty text of an unset style,
  else the integer part of the px value.
\<close>

definition parseInt_px :: "real option \<Rightarrow> num" where
  "parseInt_px v =
     (case v of
        None \<Rightarrow> None
      | Some x \<Rightarrow> Some (real_of_int (if x < 0 then \<lceil>x\<rceil> else \<lfloor>x\<rfloor>)))"

definition handleMoveStart :: "pointer_event \<Rightarrow> ShapeController \<times> element \<Rightarrow> ShapeController \<times> element" where
  "handleMoveStart e ce =
     (case ce of (c, el) \<Rightarrow>
        (c\<lparr>sc_isDragging := True,
           sc_hasDragged := False,
           sc_startEvent := Some e,
           sc_startX := Some (ev_clientX e),
           sc_startY := Some (ev_clientY e),
           sc_initialX := num_or (parseInt_px (style_left el)) (Some 0),
           sc_initialY := num_or (parseInt_px (style_top el)) (Some 0)\<rparr>,
         el\<lparr>style_cursor := ''grabbing'', style_zIndex := ''100''\<rparr>))"

definition handleMove :: "build_area \<Rightarrow> pointer_event \<Rightarrow> ShapeController \<times> element \<Rightarrow> ShapeController \<times> element" where
  "handleMove container e ce =
     (case ce of (c, el) \<Rightarrow>
        if \<not> sc_isDragging c then (c, el)
        else
          (let dx = num2 (-) (Some (ev_clientX e)) (sc_startX c);
               dy = num2 (-) (Some (ev_clientY e)) (sc_startY c)
           in if num_gt (Math_abs dx) (Some DRAG_THRESHOLD) \<or> num_gt (Math_abs dy) (Some DRAG_THRESHOLD)
              then
                (let rawX = num2 (+) (sc_initialX c) dx;
                     rawY = num2 (+) (sc_initialY c) dy;
                     snappedX = snapToGrid rawX;
                     snappedY = snapToGrid rawY;
                     shapeType = dataset_shapeType el;
                     newX = Math_max (Some 0)
                              (Math_min snappedX
                                 (num2 (-) (Some (real_of_int (clientWidth container)))
                                           (fst (shapeSize shapeType))));
                     newY = Math_max (Some 0) snappedY
                 in (c\<lparr>sc_hasDragged := True\<rparr>,
                     el\<lparr>style_left := set_px newX (style_left el),
                        style_top := set_px newY (style_top el)\<rparr>))
              else (c, el)))"

subsection \<open>The application state and the event bus\<close>

text \<open>
  The state of the page once \<open>CardCreatorApp\<close> is constructed (which needs
  \<open>#build-area\<close> to exist). Elements are objects with identity: \<open>elements\<close> maps a
  reference to the shape element created under it, \<open>controllers\<close> to its
  \<open>ShapeController\<close>; \<open>children\<close> lists the references of the \<open>.dropped-shape\<close>
  elements attached to the build area, in document order. \<open>emitted\<close> is the list of
  event names emitted on \<open>eventBus\<close>, \<open>supply_list\<close> the counts last rendered into the supply
  list. \<open>dd_touch\<close> is \<open>touchDraggedElement\<close> with \<open>touchStartPos\<close>, which
  \<open>DragDropManager\<close> assigns and clears together; \<open>cm_menu\<close> says whether the context
  menu element has been created and \<open>cm_currentShape\<close> is \<open>currentShape\<close>.
  The difficulty buttons, the collapse button and the card name do not touch this state.
\<close>

record app =
  palette :: "palette_item list"
  buildArea :: build_area
  elements :: "nat \<Rightarrow> element option"
  controllers :: "nat \<Rightarrow> ShapeController option"
  next_ref :: nat
  children :: "nat list"
  emitted :: "string list"
  supply_list :: "(prop_key \<times> nat) list"
  dd_touch :: "(palette_item \<times> real \<times> real) option"
  dd_isDragging :: bool
  cm_menu :: bool
  cm_currentShape :: "nat option"

definition init_app :: "palette_item list \<Rightarrow> build_area \<Rightarrow> app" where
  "init_app doc ba =
     \<lparr>palette = doc, buildArea = ba, elements = (\<lambda>r. None), controllers = (\<lambda>r. None),
      next_ref = 0, children = [], emitted = [], supply_list = [],
      dd_touch = None, dd_isDragging = False, cm_menu = False, cm_currentShape = None\<rparr>"

text \<open>\<open>document.querySelectorAll('.dropped-shape')\<close>.\<close>

definition placed :: "app \<Rightarrow> element list" where
  "placed a = List.map_filter (elements a) (children a)"

definition supplyList_update :: "app \<Rightarrow> app" where
  "supplyList_update a = a\<lparr>supply_list := countShapes (placed a)\<rparr>"

text \<open>\<open>ContextMenuManager.hide\<close>.\<close>

definition cm_hide :: "app \<Rightarrow> app" where
  "cm_hide a = (if cm_menu a then a\<lparr>cm_currentShape := None\<rparr> else a)"

text \<open>
  \<open>eventBus.emit\<close> with the listeners \<open>CardCreatorApp.setupEventListeners\<close>
  registers. (\<open>showContextMenu\<close>, which carries data, is \<open>cm_show\<close> below.)
\<close>

definition emit :: "string \<Rightarrow> app \<Rightarrow> app" where
  "emit event a =
     (let a1 = a\<lparr>emitted := emitted a @ [event]\<rparr>
      in if event = ''shapeAdded'' \<or> event = ''shapeRemoved'' \<or> event = ''shapesCleared''
         then supplyList_update a1
         else if event = ''hideContextMenu'' then cm_hide a1
         else a1)"

subsection \<open>DragDropManager\<close>

text \<open>
  \<open>createShape\<close> and the handlers that call it return \<open>Inl\<close> when the exception
  of \<open>querySelector\<close> passes through them, else the new state. The exception is raised
  before any of them has assigned anything.
\<close>

definition createShape :: "platform \<Rightarrow> string \<Rightarrow> num \<Rightarrow> num \<Rightarrow> app \<Rightarrow> js_error + app" where
  "createShape P shapeType x y a =
     (case create P (palette a) shapeType x y (buildArea a) of
        Inl e \<Rightarrow> Inl e
      | Inr None \<Rightarrow> Inr a
      | Inr (Some shape) \<Rightarrow>
          Inr (emit ''shapeAdded''
                 (a\<lparr>elements := (elements a)(next_ref a \<mapsto> shape),
                    controllers := (controllers a)(next_ref a \<mapsto> new_ShapeController),
                    children := children a @ [next_ref a],
                    next_ref := Suc (next_ref a)\<rparr>)))"

text \<open>\<open>dataset.shape\<close> used as a string: \<open>undefined\<close> reads as the text \<open>undefined\<close>.\<close>

definition shape_of :: "palette_item \<Rightarrow> string" where
  "shape_of item = (case data_shape item of None \<Rightarrow> ''undefined'' | Some t \<Rightarrow> t)"

text \<open>\<open>!shapeType\<close>: true for \<open>undefined\<close> and for the empty string.\<close>

definition no_shapeType :: "palette_item \<Rightarrow> bool" where
  "no_shapeType item = (case data_shape item of None \<Rightarrow> True | Some t \<Rightarrow> t = [])"

text \<open>
  \<open>handleTapToAdd\<close>; \<open>r1\<close> and \<open>r2\<close> are the two values \<open>Math.random()\<close>
  returns, each in the interval from 0 (included) to 1 (excluded). The build area exists
  in every state of the page, so of the guard \<open>!buildArea || !shapeType\<close> the second
  part decides.
\<close>

definition handleTapToAdd :: "platform \<Rightarrow> palette_item \<Rightarrow> real \<Rightarrow> real \<Rightarrow> app \<Rightarrow> js_error + app" where
  "handleTapToAdd P item r1 r2 a =
     (if no_shapeType item then Inr a
      else
        (let shapeType = shape_of item;
             rect = boundingClientRect (buildArea a);
             centerX = num2 (-) (Some (rect_width rect / 2))
                         (num2 (/) (fst (shapeSize shapeType)) (Some 2));
             centerY = num2 (-) (Some (rect_height rect / 2))
                         (num2 (/) (snd (shapeSize shapeType)) (Some 2));
             offsetX = Some ((r1 - 0.5) * 40);
             offsetY = Some ((r2 - 0.5) * 40);
             finalX = snapToGrid (num2 (+) centerX offsetX);
             finalY = snapToGrid (num2 (+) centerY offsetY)
         in createShape P shapeType finalX finalY a))"

definition handleTapToAddTouch :: "platform \<Rightarrow> palette_item \<Rightarrow> real \<Rightarrow> real \<Rightarrow> app \<Rightarrow> js_error + app" where
  "handleTapToAddTouch P item r1 r2 a =
     (if no_shapeType item then Inr a
      else
        (let shapeType = shape_of item;
             rect = boundingClientRect (buildArea a);
             centerX = num2 (-) (Some (rect_width rect / 2))
                         (num2 (/) (fst (shapeSize shapeType)) (Some 2));
             centerY = num2 (-) (Some (rect_height rect / 2))
                         (num2 (/) (snd (shapeSize shapeType)) (Some 2));
             offsetX = Some ((r1 - 0.5) * 40);
             offsetY = Some ((r2 - 0.5) * 40);
             finalX = snapToGrid (num2 (+) centerX offsetX);
             finalY = snapToGrid (num2 (+) centerY offsetY)
         in createShape P shapeType finalX finalY a))"

definition handleTouchStart :: "palette_item \<Rightarrow> real \<times> real \<Rightarrow> app \<Rightarrow> app" where
  "handleTouchStart item touch a =
     a\<lparr>dd_touch := Some (item, fst touch, snd touch), dd_isDragging := False\<rparr>"

definition handleTouchMove :: "real \<times> real \<Rightarrow> app \<Rightarrow> app" where
  "handleTouchMove touch a =
     (case dd_touch a of
        None \<Rightarrow> a
      | Some (item, startX, startY) \<Rightarrow>
          (let deltaX = \<bar>fst touch - startX\<bar>;
               deltaY = \<bar>snd touch - startY\<bar>
           in if deltaX > DRAG_THRESHOLD \<or> deltaY > DRAG_THRESHOLD
              then a\<lparr>dd_isDragging := True\<rparr>
              else a))"

definition isOverBuildArea :: "real \<times> real \<Rightarrow> rect \<Rightarrow> bool" where
  "isOverBuildArea touch rect =
     (fst touch \<ge> rect_left rect \<and> fst touch \<le> rect_right rect \<and>
      snd touch \<ge> rect_top rect \<and> snd touch \<le> rect_bottom rect)"

text \<open>The position at which a drag or a drop asks for the shape.\<close>

definition drop_x :: "string \<Rightarrow> real \<Rightarrow> rect \<Rightarrow> num" where
  "drop_x shapeType clientX rect =
     snapToGrid (num2 (-) (Some (clientX - rect_left rect))
                   (num2 (/) (fst (shapeSize shapeType)) (Some 2)))"

definition drop_y :: "string \<Rightarrow> real \<Rightarrow> rect \<Rightarrow> num" where
  "drop_y shapeType clientY rect =
     snapToGrid (num2 (-) (Some (clientY - rect_top rect))
                   (num2 (/) (snd (shapeSize shapeType)) (Some 2)))"

text \<open>
  \<open>handleTouchEnd\<close>. When \<open>createShape\<close> or \<open>handleTapToAddTouch\<close> throws, the
  statements that reset the touch state are not reached.
\<close>

definition handleTouchEnd :: "platform \<Rightarrow> real \<times> real \<Rightarrow> real \<Rightarrow> real \<Rightarrow> app \<Rightarrow> js_error + app" where
  "handleTouchEnd P touch r1 r2 a =
     (case dd_touch a of
        None \<Rightarrow> Inr a
      | Some (item, startX, startY) \<Rightarrow>
          (case (if dd_isDragging a
                 then
                   (let rect = boundingClientRect (buildArea a)
                    in if isOverBuildArea touch rect
                       then createShape P (shape_of item)
                              (drop_x (shape_of item) (fst touch) rect)
                              (drop_y (shape_of item) (snd touch) rect) a
                       else Inr a)
                 else handleTapToAddTouch P item r1 r2 a) of
             Inl e \<Rightarrow> Inl e
           | Inr a1 \<Rightarrow> Inr (a1\<lparr>dd_touch := None, dd_isDragging := False\<rparr>)))"

text \<open>\<open>handleDrop\<close>; \<open>shapeType\<close> is the text of the drag's data transfer.\<close>

definition handleDrop :: "platform \<Rightarrow> string \<Rightarrow> real \<times> real \<Rightarrow> app \<Rightarrow> js_error + app" where
  "handleDrop P shapeType pos a =
     (let rect = boundingClientRect (buildArea a)
      in createShape P shapeType (drop_x shapeType (fst pos) rect) (drop_y shapeType (snd pos) rect) a)"

text \<open>
  The state of the page after a handler has run: when the handler threw, the state is the
  one before it (the exception is raised before any assignment).
\<close>

definition settle :: "app \<Rightarrow> js_error + app \<Rightarrow> app" where
  "settle a r = (case r of Inl e \<Rightarrow> a | Inr a' \<Rightarrow> a')"

subsection \<open>Handlers of a placed shape, context menu and keyboard\<close>

definition update_element :: "nat \<Rightarrow> (element \<Rightarrow> element) \<Rightarrow> app \<Rightarrow> app" where
  "update_element r f a = a\<lparr>elements := (elements a)(r := map_option f (elements a r))\<rparr>"

text \<open>A handler of the controller of the shape \<open>r\<close>, acting on the controller and its element.\<close>

definition with_shape :: "nat \<Rightarrow> (ShapeController \<times> element \<Rightarrow> ShapeController \<times> element) \<Rightarrow> app \<Rightarrow> app" where
  "with_shape r f a =
     (case controllers a r of
        None \<Rightarrow> a
      | Some c \<Rightarrow>
          (case elements a r of
             None \<Rightarrow> a
           | Some el \<Rightarrow>
               a\<lparr>controllers := (controllers a)(r \<mapsto> fst (f (c, el))),
                  elements := (elements a)(r \<mapsto> snd (f (c, el)))\<rparr>))"

text \<open>
  \<open>handleClick\<close>: every attached shape loses the class \<open>selected\<close>, then this
  element gets it. The context menu is shown by a timer, the action \<open>ShowContextMenu\<close>.
\<close>

definition handleClick :: "nat \<Rightarrow> app \<Rightarrow> app" where
  "handleClick r a =
     a\<lparr>elements :=
         (\<lambda>q. if q = r then map_option (\<lambda>el. el\<lparr>class_selected := True\<rparr>) (elements a q)
              else if q \<in> set (children a)
              then map_option (\<lambda>el. el\<lparr>class_selected := False\<rparr>) (elements a q)
              else elements a q)\<rparr>"

definition handleMoveEnd :: "nat \<Rightarrow> app \<Rightarrow> app" where
  "handleMoveEnd r a =
     (case controllers a r of
        None \<Rightarrow> a
      | Some c \<Rightarrow>
          if sc_isDragging c
          then
            (let a1 = update_element r (\<lambda>el. el\<lparr>style_cursor := ''move'', style_zIndex := ''10''\<rparr>) a;
                 a2 = (if \<not> sc_hasDragged c \<and> sc_startEvent c \<noteq> None then handleClick r a1 else a1)
             in a2\<lparr>controllers :=
                      (controllers a2)(r \<mapsto> c\<lparr>sc_isDragging := False,
                                                sc_hasDragged := False,
                                                sc_startEvent := None\<rparr>)\<rparr>)
          else a)"

text \<open>\<open>ContextMenuManager.show\<close>; the position and visibility of the menu are not modelled.\<close>

definition cm_show :: "nat \<Rightarrow> app \<Rightarrow> app" where
  "cm_show r a = (cm_hide a)\<lparr>cm_menu := True, cm_currentShape := Some r\<rparr>"

text \<open>\<open>destroy\<close> of the context menu's controller: \<open>element.remove()\<close> and the event.\<close>

definition menu_destroy :: "nat \<Rightarrow> app \<Rightarrow> app" where
  "menu_destroy r a = emit ''shapeRemoved'' (a\<lparr>children := removeAll r (children a)\<rparr>)"

text \<open>
  \<open>ContextMenuManager.handleAction\<close>; \<open>button\<close> is the \<open>data-action\<close> of the menu
  item that was clicked, \<open>None\<close> when the click hit no menu item.
\<close>

definition handleAction :: "platform \<Rightarrow> string option \<Rightarrow> app \<Rightarrow> app" where
  "handleAction P button a =
     (case button of
        None \<Rightarrow> a
      | Some action \<Rightarrow>
          (case cm_currentShape a of
             None \<Rightarrow> a
           | Some r \<Rightarrow>
               cm_hide
                 (if action = ''rotate'' then update_element r menu_rotate a
                  else if action = ''flip-horizontal'' then update_element r (menu_flip P ''horizontal'') a
                  else if action = ''flip-vertical'' then update_element r (menu_flip P ''vertical'') a
                  else if action = ''delete'' then menu_destroy r a
                  else a)))"

text \<open>\<open>KeyboardManager\<close>.\<close>

definition clearAllShapes :: "app \<Rightarrow> app" where
  "clearAllShapes a = emit ''shapesCleared'' (a\<lparr>children := []\<rparr>)"

definition is_selected :: "app \<Rightarrow> nat \<Rightarrow> bool" where
  "is_selected a r = (case elements a r of None \<Rightarrow> False | Some el \<Rightarrow> class_selected el)"

definition deleteSelectedShape :: "app \<Rightarrow> app" where
  "deleteSelectedShape a =
     (case find (is_selected a) (children a) of
        None \<Rightarrow> a
      | Some r \<Rightarrow> emit ''shapeRemoved'' (a\<lparr>children := removeAll r (children a)\<rparr>))"

definition handleKeydown :: "string \<Rightarrow> app \<Rightarrow> app" where
  "handleKeydown key a =
     (if key = ''Escape'' then clearAllShapes a
      else if key = ''Delete'' \<or> key = ''Backspace'' then deleteSelectedShape a
      else a)"

subsection \<open>The page as a transition system\<close>

text \<open>
  One action is one run of a handler of script.js: a click on a palette item, the three
  touch handlers of a palette item, a drop on the build area, the three move handlers of a
  placed shape, its \<open>contextmenu\<close> handler (rotate), the timer of \<open>handleClick\<close>
  showing the context menu, a click in the context menu, a click outside of it that hides
  it, a key press, the clear-all button, the print button (which hides the context menu),
  and a change of the layout of the build area.
\<close>

datatype action =
    Tap palette_item real real
  | TouchStart palette_item "real \<times> real"
  | TouchMove "real \<times> real"
  | TouchEnd "real \<times> real" real real
  | Drop string "real \<times> real"
  | MoveStart nat pointer_event
  | Move nat pointer_event
  | MoveEnd nat
  | ContextMenu nat
  | ShowContextMenu nat
  | MenuClick "string option"
  | OutsideClick
  | KeyDown string
  | ClearAllButton
  | PrintButton
  | Layout build_area

fun step :: "platform \<Rightarrow> action \<Rightarrow> app \<Rightarrow> app" where
  "step P (Tap item r1 r2) a = settle a (handleTapToAdd P item r1 r2 a)"
| "step P (TouchStart item touch) a = handleTouchStart item touch a"
| "step P (TouchMove touch) a = handleTouchMove touch a"
| "step P (TouchEnd touch r1 r2) a = settle a (handleTouchEnd P touch r1 r2 a)"
| "step P (Drop shapeType pos) a = settle a (handleDrop P shapeType pos a)"
| "step P (MoveStart r e) a = with_shape r (handleMoveStart e) a"
| "step P (Move r e) a = with_shape r (handleMove (buildArea a) e) a"
| "step P (MoveEnd r) a = handleMoveEnd r a"
| "step P (ContextMenu r) a = update_element r rotate_shape a"
| "step P (ShowContextMenu r) a = (if elements a r = None then a else cm_show r a)"
| "step P (MenuClick button) a = handleAction P button a"
| "step P OutsideClick a = cm_hide a"
| "step P (KeyDown key) a = handleKeydown key a"
| "step P ClearAllButton a = clearAllShapes a"
| "step P PrintButton a = emit ''hideContextMenu'' a"
| "step P (Layout ba) a = a\<lparr>buildArea := ba\<rparr>"

definition run :: "platform \<Rightarrow> action list \<Rightarrow> app \<Rightarrow> app" where
  "run P acts a = foldl (\<lambda>s act. step P act s) a acts"

subsection \<open>PrintManager.captureAsImage\<close>

text \<open>
  What the environment decides during one call: whether \<open>html2canvas\<close> is defined at
  entry, whether a script element with the library's URL is already in the document
  (\<open>Utils.loadScript\<close> then resolves at once), whether the script's \<open>load\<close> event
  fires rather than its \<open>error\<close> event, whether the loaded script defines
  \<open>html2canvas\<close>, whether \<open>html2canvas(card, ...)\<close> resolves and whether
  \<open>canvas.toBlob\<close> returns without throwing. A script or a rendering that never
  finishes, and what \<open>saveImage\<close> does later with the blob, are not modelled.
\<close>

record capture_env =
  html2canvas_defined :: bool
  script_in_document :: bool
  script_loads :: bool
  script_defines :: bool
  render_succeeds :: bool
  toBlob_succeeds :: bool

datatype effect = AppendScript | RenderCard | ToBlob | ConsoleError | Alert

datatype completion = Returned | Thrown

text \<open>The body of the \<open>try\<close> block: the effects up to its end or up to the throw.\<close>

definition capture_try :: "capture_env \<Rightarrow> effect list \<times> completion" where
  "capture_try env =
     (let load = (\<not> html2canvas_defined env \<and> \<not> script_in_document env);
          pre = (if load then [AppendScript] else [])
      in if load \<and> \<not> script_loads env then (pre, Thrown)
         else if \<not> (html2canvas_defined env \<or> (load \<and> script_defines env)) then (pre, Thrown)
         else if \<not> render_succeeds env then (pre @ [RenderCard], Thrown)
         else if \<not> toBlob_succeeds env then (pre @ [RenderCard, ToBlob], Thrown)
         else (pre @ [RenderCard, ToBlob], Returned))"

text \<open>\<open>showFallbackInstructions\<close> is the one \<open>alert\<close>.\<close>

definition showFallbackInstructions :: "effect list" where
  "showFallbackInstructions = [Alert]"

definition captureAsImage :: "capture_env \<Rightarrow> effect list \<times> completion" where
  "captureAsImage env =
     (case capture_try env of
        (trace, Returned) \<Rightarrow> (trace, Returned)
      | (trace, Thrown) \<Rightarrow> (trace @ [ConsoleError] @ showFallbackInstructions, Returned))"

subsection \<open>Predicates of the specification\<close>

text \<open>The number of shapes of a list whose type is displayed under the key \<open>k\<close>.\<close>

definition named :: "prop_key \<Rightarrow> element list \<Rightarrow> nat" where
  "named k shapes = length (filter (\<lambda>s. displayName (dataset_shapeType s) = k) shapes)"

text \<open>A coordinate that is a multiple of the grid step.\<close>

definition is_grid :: "real \<Rightarrow> bool" where
  "is_grid v = (v = GRID_SIZE * real_of_int \<lfloor>v / GRID_SIZE\<rfloor>)"

text \<open>
  The stored x coordinate exists, is a multiple of the grid step and lies between 0 and
  \<open>maxX\<close>; the stored y coordinate exists, is a multiple of the grid step and is not
  negative.
\<close>

definition x_ok :: "real \<Rightarrow> element \<Rightarrow> bool" where
  "x_ok maxX el =
     (case style_left el of None \<Rightarrow> False | Some x \<Rightarrow> is_grid x \<and> 0 \<le> x \<and> x \<le> maxX)"

definition y_ok :: "element \<Rightarrow> bool" where
  "y_ok el = (case style_top el of None \<Rightarrow> False | Some y \<Rightarrow> is_grid y \<and> 0 \<le> y)"

text \<open>
  No definition for a shape type: \<open>querySelector\<close> returns null, or the element it
  returns has no \<open>.shape-svg\<close> descendant.
\<close>

definition definition_missing :: "platform \<Rightarrow> palette_item list \<Rightarrow> string \<Rightarrow> bool" where
  "definition_missing P doc shapeType =
     (case querySelector_data_shape P doc shapeType of
        Inl e \<Rightarrow> False
      | Inr None \<Rightarrow> True
      | Inr (Some p) \<Rightarrow> shape_svg p = None)"

text \<open>
  A touch gesture on a palette item up to the lifting of the finger: \<open>touchstart\<close> at
  \<open>start\<close>, then one \<open>touchmove\<close> for each position of the list.
\<close>

definition gesture :: "palette_item \<Rightarrow> real \<times> real \<Rightarrow> (real \<times> real) list \<Rightarrow> app \<Rightarrow> app" where
  "gesture item start moves a = fold handleTouchMove moves (handleTouchStart item start a)"

definition beyond_threshold :: "real \<times> real \<Rightarrow> real \<times> real \<Rightarrow> bool" where
  "beyond_threshold start touch =
     (\<bar>fst touch - fst start\<bar> > DRAG_THRESHOLD \<or> \<bar>snd touch - snd start\<bar> > DRAG_THRESHOLD)"

text \<open>The rotation of a shape as \<open>rotate\<close> reads it: \<open>parseInt(dataset.rotation || '0')\<close>.\<close>

definition rotation_state :: "element \<Rightarrow> int option" where
  "rotation_state el =
     parseInt (case dataset_rotation el of
                 None \<Rightarrow> ''0''
               | Some s \<Rightarrow> if s = [] then ''0'' else s)"

text \<open>
  What holds of every shape element the page ever holds: \<open>dataset.rotation\<close> is unset or
  one of the four texts \<open>rotate\<close> writes, and the transform has no backslash in it.
\<close>

definition good_element :: "element \<Rightarrow> bool" where
  "good_element el =
     ((dataset_rotation el = None \<or> dataset_rotation el = Some ''0''
         \<or> dataset_rotation el = Some ''90'' \<or> dataset_rotation el = Some ''180''
         \<or> dataset_rotation el = Some ''270'')
      \<and> backslash \<notin> set (svg_transform el))"

text \<open>The actions that place a shape, and those that delete one or clear the card.\<close>

fun is_place :: "action \<Rightarrow> bool" where
  "is_place (Tap item r1 r2) = True"
| "is_place (TouchEnd touch r1 r2) = True"
| "is_place (Drop shapeType pos) = True"
| "is_place act = False"

fun is_remove :: "action \<Rightarrow> bool" where
  "is_remove (MenuClick button) = (button = Some ''delete'')"
| "is_remove (KeyDown key) = (key = ''Escape'' \<or> key = ''Delete'' \<or> key = ''Backspace'')"
| "is_remove ClearAllButton = True"
| "is_remove act = False"

text \<open>All shape elements the page holds satisfy \<open>good_element\<close>.\<close>

definition heap_good :: "app \<Rightarrow> bool" where
  "heap_good a = (\<forall>r el. elements a r = Some el \<longrightarrow> good_element el)"

text \<open>
  \<open>el'\<close> differs from \<open>el\<close> at most in \<open>dataset.rotation\<close>, \<open>dataset.flippedH\<close>,
  \<open>dataset.flippedV\<close> and the \<open>transform\<close> and \<open>transformOrigin\<close> styles of the
  \<open>svg\<close>: type, position, cursor, z-index and selection are the same.
\<close>

definition only_rotation_flip_changed :: "element \<Rightarrow> element \<Rightarrow> bool" where
  "only_rotation_flip_changed el el' =
     (el' = el\<lparr>dataset_rotation := dataset_rotation el',
                dataset_flippedH := dataset_flippedH el',
                dataset_flippedV := dataset_flippedV el',
                svg_transform := svg_transform el',
                svg_transformOrigin := svg_transformOrigin el'\<rparr>)"

text \<open>The actions that rotate or flip a shape, and the shape they act on.\<close>

fun is_rotate_or_flip :: "action \<Rightarrow> bool" where
  "is_rotate_or_flip (ContextMenu r) = True"
| "is_rotate_or_flip (MenuClick button) =
     (button = Some ''rotate'' \<or> button = Some ''flip-horizontal'' \<or> button = Some ''flip-vertical'')"
| "is_rotate_or_flip act = False"

fun target :: "app \<Rightarrow> action \<Rightarrow> nat option" where
  "target a (ContextMenu r) = Some r"
| "target a (MenuClick button) = cm_currentShape a"
| "target a act = None"

subsection \<open>Sample inputs\<close>

text \<open>A freshly placed shape of a given type, a build area 400 wide and a small palette.\<close>

definition shape_of_type :: "string \<Rightarrow> element" where
  "shape_of_type t =
     \<lparr>dataset_shapeType = t, style_left = Some 0, style_top = Some 0,
      style_cursor = [], style_zIndex = [], dataset_rotation = None,
      dataset_flippedH = None, dataset_flippedV = None,
      svg_transform = [], svg_transformOrigin = [], class_selected = False\<rparr>"

definition area_of_width :: "int \<Rightarrow> build_area" where
  "area_of_width cw =
     \<lparr>boundingClientRect =
        \<lparr>rect_left = 0, rect_top = 0, rect_right = real_of_int cw, rect_bottom = 600,
         rect_width = real_of_int cw, rect_height = 600\<rparr>,
      clientWidth = cw\<rparr>"

definition sample_palette :: "palette_item list" where
  "sample_palette =
     [\<lparr>data_shape = Some ''square'', shape_svg = Some ''<rect/>''\<rparr>,
      \<lparr>data_shape = Some ''beam'', shape_svg = None\<rparr>]"

text \<open>
  A controller in the middle of a drag that started with the pointer at \<open>(sx, 0)\<close> and
  the shape at \<open>(ix, 0)\<close>, and a mouse event at \<open>(x, 0)\<close>.
\<close>

definition dragging :: "real \<Rightarrow> real \<Rightarrow> ShapeController" where
  "dragging sx ix =
     \<lparr>sc_isDragging = True, sc_hasDragged = False,
      sc_startEvent = Some \<lparr>is_touch = False, ev_clientX = sx, ev_clientY = 0\<rparr>,
      sc_startX = Some sx, sc_startY = Some 0, sc_initialX = Some ix, sc_initialY = Some 0\<rparr>"

definition mouse_at :: "real \<Rightarrow> pointer_event" where
  "mouse_at x = \<lparr>is_touch = False, ev_clientX = x, ev_clientY = 0\<rparr>"

definition square_item :: palette_item where
  "square_item = \<lparr>data_shape = Some ''square'', shape_svg = Some ''<rect/>''\<rparr>"

text \<open>A palette item that has no \<open>.shape-svg\<close> descendant.\<close>

definition beam_item :: palette_item where
  "beam_item = \<lparr>data_shape = Some ''beam'', shape_svg = None\<rparr>"

text \<open>A palette item whose type is the name of a member inherited from \<open>Object.prototype\<close>.\<close>

definition constructor_item :: palette_item where
  "constructor_item = \<lparr>data_shape = Some ''constructor'', shape_svg = Some ''<rect/>''\<rparr>"

text \<open>
  A value for the browser functions (no theorem depends on which), the square placed by a
  tap with both random values 0 and then rotated once, and two environments in which the
  capture fails.
\<close>

definition any_platform :: platform where
  "any_platform =
     \<lparr>parseFloat = (\<lambda>s. None), fraction_str = (\<lambda>x. []),
      other_selector = (\<lambda>t doc. Inr None)\<rparr>"

definition rotated_square :: element where
  "rotated_square =
     (shape_of_type ''square'')\<lparr>style_left := Some 140, style_top := Some 240,
       dataset_rotation := Some ''90'', svg_transform := ''rotate(90deg)'',
       svg_transformOrigin := ''center center''\<rparr>"

definition failing_load :: capture_env where
  "failing_load =
     \<lparr>html2canvas_defined = False, script_in_document = False, script_loads = False,
      script_defines = False, render_succeeds = True, toBlob_succeeds = True\<rparr>"

definition failing_render :: capture_env where
  "failing_render =
     \<lparr>html2canvas_defined = True, script_in_document = True, script_loads = True,
      script_defines = True, render_succeeds = False, toBlob_succeeds = True\<rparr>"

section \<open>Grid snapping\<close>

lemma snapToGrid_Some:
  "snapToGrid (Some v) = Some (real_of_int (\<lfloor>v / 20 + 1 / 2\<rfloor> * 20))"
  by (simp add: snapToGrid_def num2_def Math_round_def GRID_SIZE_def)

lemma snapToGrid_None: "snapToGrid None = None"
  by (simp add: snapToGrid_def num2_def Math_round_def)

lemma snap_close: "\<bar>real_of_int (\<lfloor>v / 20 + 1 / 2\<rfloor> * 20) - v\<bar> \<le> 10"
proof -
  let ?k = "\<lfloor>v / 20 + 1 / 2\<rfloor>"
  have "real_of_int ?k \<le> v / 20 + 1 / 2" by (rule of_int_floor_le)
  moreover have "v / 20 + 1 / 2 < real_of_int ?k + 1" by linarith
  ultimately show ?thesis by (simp add: abs_le_iff) linarith
qed

lemma snap_fixed: "\<lfloor>real_of_int (k * 20) / 20 + 1 / 2\<rfloor> = k"
proof -
  have "real_of_int (k * 20) / 20 + 1 / 2 = real_of_int k + 1 / 2" by simp
  then show ?thesis by (simp add: floor_unique)
qed

lemma snap_nearest:
  "\<bar>real_of_int (\<lfloor>v / 20 + 1 / 2\<rfloor> * 20) - v\<bar> \<le> \<bar>real_of_int (20 * k) - v\<bar>"
proof -
  let ?j = "\<lfloor>v / 20 + 1 / 2\<rfloor>"
  have a: "real_of_int ?j \<le> v / 20 + 1 / 2" by (rule of_int_floor_le)
  have b: "v / 20 + 1 / 2 < real_of_int ?j + 1" by linarith
  consider "k \<le> ?j - 1" | "k = ?j" | "k \<ge> ?j + 1" by linarith
  then show ?thesis
  proof cases
    case 1
    then have "real_of_int k \<le> real_of_int ?j - 1" by linarith
    with a b show ?thesis by simp linarith
  next
    case 2
    then show ?thesis by (simp add: mult.commute)
  next
    case 3
    then have "real_of_int k \<ge> real_of_int ?j + 1" by linarith
    with a b show ?thesis by simp linarith
  qed
qed

text \<open>
  Claim C2. For every real \<open>v\<close>, \<open>Utils.snapToGrid(v)\<close> is an integer multiple of
  \<open>GRID_SIZE = 20\<close>, it lies within 10 of \<open>v\<close>, no multiple of 20 is nearer to
  \<open>v\<close>, and snapping the result again returns it unchanged.
\<close>

theorem snapToGrid_nearest_multiple:
  "\<exists>m::int. snapToGrid (Some v) = Some (real_of_int m)
      \<and> 20 dvd m
      \<and> real_of_int m = real_of_int (m div 20) * GRID_SIZE
      \<and> \<bar>real_of_int m - v\<bar> \<le> 10
      \<and> (\<forall>k::int. \<bar>real_of_int m - v\<bar> \<le> \<bar>real_of_int (20 * k) - v\<bar>)
      \<and> snapToGrid (snapToGrid (Some v)) = snapToGrid (Some v)"
proof -
  let ?m = "\<lfloor>v / 20 + 1 / 2\<rfloor> * 20"
  have 1: "snapToGrid (Some v) = Some (real_of_int ?m)" by (rule snapToGrid_Some)
  have 2: "20 dvd ?m" by simp
  have 3: "real_of_int ?m = real_of_int (?m div 20) * GRID_SIZE"
    by (simp add: GRID_SIZE_def)
  have 4: "\<bar>real_of_int ?m - v\<bar> \<le> 10" by (rule snap_close)
  have 5: "\<forall>k::int. \<bar>real_of_int ?m - v\<bar> \<le> \<bar>real_of_int (20 * k) - v\<bar>"
    using snap_nearest by blast
  have 6: "snapToGrid (snapToGrid (Some v)) = snapToGrid (Some v)"
    unfolding 1 by (simp only: snapToGrid_Some snap_fixed)
  from 1 2 3 4 5 6 show ?thesis by blast
qed


section \<open>The supply list\<close>

lemma map_of_count_step:
  "map_of (count_step acc s) k =
     (if displayName (dataset_shapeType s) = k
      then Some ((case map_of acc k of None \<Rightarrow> 0 | Some c \<Rightarrow> c) + 1)
      else map_of acc k)"
  by (simp add: count_step_def update_conv' Let_def)

lemma named_Cons:
  "named k (s # shapes) = (if displayName (dataset_shapeType s) = k then 1 else 0) + named k shapes"
  by (simp add: named_def)

lemma foldl_count_step:
  "map_of (foldl count_step acc shapes) k =
     (if named k shapes = 0 then map_of acc k
      else Some ((case map_of acc k of None \<Rightarrow> 0 | Some c \<Rightarrow> c) + named k shapes))"
proof (induction shapes arbitrary: acc)
  case Nil
  then show ?case by (simp add: named_def)
next
  case (Cons s shapes)
  have "map_of (foldl count_step acc (s # shapes)) k
          = map_of (foldl count_step (count_step acc s) shapes) k" by simp
  also have "\<dots> = (if named k shapes = 0 then map_of (count_step acc s) k
      else Some ((case map_of (count_step acc s) k of None \<Rightarrow> 0 | Some c \<Rightarrow> c) + named k shapes))"
    by (rule Cons.IH)
  finally show ?case
    by (simp add: map_of_count_step named_Cons)
qed

lemma countShapes_count:
  "map_of (countShapes shapes) k = (if named k shapes = 0 then None else Some (named k shapes))"
  by (simp add: countShapes_def foldl_count_step)

lemma displayName_own:
  "map_of SHAPE_NAMES t = Some n \<Longrightarrow> displayName t = Str n"
  by (simp add: displayName_def get_prop_def SHAPE_NAMES_def split: if_splits) auto

lemma displayName_unknown:
  "map_of SHAPE_NAMES t = None \<Longrightarrow> t \<notin> set Object_prototype_keys \<Longrightarrow> displayName t = Str ''Unknown''"
  by (simp add: displayName_def get_prop_def)

lemma displayName_inherited:
  "t \<in> set Object_prototype_keys \<Longrightarrow> displayName t = Member t"
  by (simp add: displayName_def get_prop_def SHAPE_NAMES_def Object_prototype_keys_def, elim disjE, simp_all)

text \<open>
  What \<open>countShapes\<close> does for every list of shapes: each key has the number of shapes
  whose type is displayed under it; a key of \<open>SHAPE_NAMES\<close> is displayed under its name
  there (the two barrel types under \<open>Barrel\<close>), and a type that is neither a key of
  \<open>SHAPE_NAMES\<close> nor the name of an inherited member under \<open>Unknown\<close>.
\<close>

lemma countShapes_counts_display_names:
  "map_of (countShapes shapes) k = (if named k shapes = 0 then None else Some (named k shapes))
   \<and> (\<forall>t n. map_of SHAPE_NAMES t = Some n \<longrightarrow> displayName t = Str n)
   \<and> displayName ''barrel-cylinder'' = Str ''Barrel''
   \<and> displayName ''barrel-circle'' = Str ''Barrel''
   \<and> (\<forall>t. map_of SHAPE_NAMES t = None \<and> t \<notin> set Object_prototype_keys
          \<longrightarrow> displayName t = Str ''Unknown'')"
proof -
  have "displayName ''barrel-cylinder'' = Str ''Barrel''"
    by (rule displayName_own) (simp add: SHAPE_NAMES_def)
  moreover have "displayName ''barrel-circle'' = Str ''Barrel''"
    by (rule displayName_own) (simp add: SHAPE_NAMES_def)
  ultimately show ?thesis
    using countShapes_count displayName_own displayName_unknown by blast
qed

text \<open>
  Claim C9 fails on the code for a shape whose type is not in \<open>SHAPE_NAMES\<close> but names
  a member that object literals inherit from \<open>Object.prototype\<close>. \<open>constructor\<close> is
  no key of \<open>SHAPE_NAMES\<close>; the read \<open>SHAPE_NAMES['constructor']\<close> gives the
  inherited function, which is truthy, so the fallback \<open>|| 'Unknown'\<close> is not taken
  and the shape is counted under the text of that function: the supply list has no entry
  \<open>Unknown\<close>. A tap on a palette item of that type places such a shape and renders
  this supply list. For an ordinary unknown type (\<open>zz\<close>) the fallback works.
\<close>

theorem countShapes_inherited_name_not_unknown:
  "map_of SHAPE_NAMES ''constructor'' = None
   \<and> countShapes [shape_of_type ''constructor''] = [(Member ''constructor'', 1)]
   \<and> map_of (countShapes [shape_of_type ''constructor'']) (Str ''Unknown'') = None
   \<and> countShapes [shape_of_type ''zz''] = [(Str ''Unknown'', 1)]
   \<and> supply_list (step any_platform (Tap constructor_item 0 0)
                     (init_app [constructor_item] (area_of_width 400)))
       = [(Member ''constructor'', 1)]"
proof -
  have 1: "map_of SHAPE_NAMES ''constructor'' = None" by (simp add: SHAPE_NAMES_def)
  have d: "displayName ''constructor'' = Member ''constructor''"
    by (rule displayName_inherited) (simp add: Object_prototype_keys_def)
  have 2: "\<And>el. dataset_shapeType el = ''constructor''
             \<Longrightarrow> countShapes [el] = [(Member ''constructor'', 1)]"
    by (simp add: countShapes_def count_step_def d)
  have u: "displayName ''zz'' = Str ''Unknown''"
    by (rule displayName_unknown) (simp_all add: SHAPE_NAMES_def Object_prototype_keys_def)
  have 4: "countShapes [shape_of_type ''zz''] = [(Str ''Unknown'', 1)]"
    by (simp add: countShapes_def count_step_def shape_of_type_def u)
  have p: "selector_plain ''constructor''"
    by (simp add: selector_plain_def selector_special_char_def backslash_def)
  have 5: "supply_list (step any_platform (Tap constructor_item 0 0)
                     (init_app [constructor_item] (area_of_width 400)))
       = [(Member ''constructor'', 1)]"
    by (simp add: handleTapToAdd_def no_shapeType_def shape_of_def constructor_item_def Let_def
          createShape_def create_def getDefinition_def querySelector_data_shape_def p
          init_app_def settle_def emit_def supplyList_update_def placed_def List.map_filter_def 2)
  from 1 2 [of "shape_of_type ''constructor''"] 4 5 show ?thesis
    by (simp add: shape_of_type_def)
qed

section \<open>Shape creation without a definition\<close>

lemma find_in_set: "find P xs = Some x \<Longrightarrow> x \<in> set xs \<and> P x"
  by (induction xs) (auto split: if_splits)

lemma plain_no_item:
  assumes "selector_plain t" and "\<forall>p \<in> set doc. data_shape p \<noteq> Some t"
  shows "querySelector_data_shape P doc t = Inr None"
proof (cases "find (\<lambda>p. data_shape p = Some t) doc")
  case None
  with assms(1) show ?thesis by (simp add: querySelector_data_shape_def)
next
  case (Some p)
  then have "p \<in> set doc \<and> data_shape p = Some t" by (rule find_in_set)
  with assms(2) show ?thesis by blast
qed

lemma getDefinition_missing:
  "definition_missing P doc t \<Longrightarrow> getDefinition P doc t = Inr None"
  by (cases "querySelector_data_shape P doc t")
     (auto simp add: definition_missing_def getDefinition_def split: option.splits)

text \<open>
  Where \<open>querySelector\<close> returns null, or an element without a \<open>.shape-svg\<close>
  descendant, \<open>getDefinition\<close> and \<open>create\<close> return null and \<open>createShape\<close>
  returns with the state as it was; for a type that needs no escaping in the selector
  this is so whenever no element of the document carries the type.
\<close>

lemma createShape_without_definition:
  assumes "definition_missing P (palette a) shapeType"
  shows "getDefinition P (palette a) shapeType = Inr None
         \<and> create P (palette a) shapeType x y (buildArea a) = Inr None
         \<and> createShape P shapeType x y a = Inr a
         \<and> handleDrop P shapeType pos a = Inr a
         \<and> step P (Drop shapeType pos) a = a"
proof -
  from assms have g: "getDefinition P (palette a) shapeType = Inr None"
    by (rule getDefinition_missing)
  then have c: "\<And>x y. create P (palette a) shapeType x y (buildArea a) = Inr None"
    by (simp add: create_def)
  then have s: "\<And>x y. createShape P shapeType x y a = Inr a" by (simp add: createShape_def)
  then have d: "handleDrop P shapeType pos a = Inr a" by (simp add: handleDrop_def Let_def)
  from g c s d show ?thesis by (simp add: settle_def)
qed

lemma createShape_no_item:
  assumes "selector_plain shapeType" and "\<forall>p \<in> set (palette a). data_shape p \<noteq> Some shapeType"
  shows "createShape P shapeType x y a = Inr a"
proof -
  have "definition_missing P (palette a) shapeType"
    using plain_no_item [OF assms] by (simp add: definition_missing_def)
  then show ?thesis using createShape_without_definition by blast
qed

text \<open>
  Claim C5 fails on the code for a requested type that no element carries and that
  contains a double quote, such as the text \<open>a"b\<close> dropped on the build area
  (\<open>handleDrop\<close> takes the type from the drag's data). The selector
  \<open>[data-shape="a"b"]\<close> is no selector: \<open>querySelector\<close> throws \<open>SyntaxError\<close>,
  \<open>getDefinition\<close> and \<open>create\<close> do not return null but pass the exception on, and
  so do \<open>createShape\<close> and \<open>handleDrop\<close>, which have no \<open>try\<close>: the failure is
  not silent. The page's state stays as it was. For the type \<open>zz\<close>, which no element
  carries either, the same calls are the silent no-op of the claim.
\<close>

theorem createShape_quote_throws:
  "find (\<lambda>p. data_shape p = Some [CHR ''a'', CHR 0x22, CHR ''b'']) sample_palette = None
   \<and> getDefinition any_platform sample_palette [CHR ''a'', CHR 0x22, CHR ''b''] = Inl SyntaxError
   \<and> create any_platform sample_palette [CHR ''a'', CHR 0x22, CHR ''b''] (Some 40) (Some 40)
        (area_of_width 400) = Inl SyntaxError
   \<and> createShape any_platform [CHR ''a'', CHR 0x22, CHR ''b''] (Some 40) (Some 40)
        (init_app sample_palette (area_of_width 400)) = Inl SyntaxError
   \<and> handleDrop any_platform [CHR ''a'', CHR 0x22, CHR ''b''] (100, 100)
        (init_app sample_palette (area_of_width 400)) = Inl SyntaxError
   \<and> step any_platform (Drop [CHR ''a'', CHR 0x22, CHR ''b''] (100, 100))
        (init_app sample_palette (area_of_width 400)) = init_app sample_palette (area_of_width 400)
   \<and> find (\<lambda>p. data_shape p = Some ''zz'') sample_palette = None
   \<and> createShape any_platform ''zz'' (Some 40) (Some 40)
        (init_app sample_palette (area_of_width 400)) = Inr (init_app sample_palette (area_of_width 400))"
proof -
  let ?t = "[CHR ''a'', CHR 0x22, CHR ''b'']"
  let ?a = "init_app sample_palette (area_of_width 400)"
  have q: "querySelector_data_shape any_platform sample_palette ?t = Inl SyntaxError"
    by (simp add: querySelector_data_shape_def selector_plain_def selector_broken_def
          selector_special_char_def backslash_def is_letter_def)
  have 1: "find (\<lambda>p. data_shape p = Some ?t) sample_palette = None"
    by (simp add: sample_palette_def)
  have 2: "getDefinition any_platform sample_palette ?t = Inl SyntaxError"
    by (simp add: getDefinition_def q)
  have 3: "\<And>x y c. create any_platform sample_palette ?t x y c = Inl SyntaxError"
    by (simp add: create_def 2)
  have p: "palette ?a = sample_palette" by (simp add: init_app_def)
  have 4: "\<And>x y. createShape any_platform ?t x y ?a = Inl SyntaxError"
    by (simp add: createShape_def p 3)
  have 5: "handleDrop any_platform ?t (100, 100) ?a = Inl SyntaxError"
    by (simp add: handleDrop_def Let_def 4)
  have 6: "step any_platform (Drop ?t (100, 100)) ?a = ?a" by (simp add: 5 settle_def)
  have 7: "find (\<lambda>p. data_shape p = Some ''zz'') sample_palette = None"
    by (simp add: sample_palette_def)
  have "selector_plain ''zz''"
    by (simp add: selector_plain_def selector_special_char_def backslash_def)
  moreover have "\<forall>p \<in> set (palette ?a). data_shape p \<noteq> Some ''zz''"
    by (simp add: init_app_def sample_palette_def)
  ultimately have 8: "createShape any_platform ''zz'' (Some 40) (Some 40) ?a = Inr ?a"
    by (rule createShape_no_item)
  from 1 2 3 4 5 6 7 8 show ?thesis by simp
qed

section \<open>Positions of placed shapes\<close>

lemma is_grid_mult: "is_grid (real_of_int (k * 20))"
proof -
  have "real_of_int (k * 20) / 20 = real_of_int k" by simp
  then show ?thesis by (simp add: is_grid_def GRID_SIZE_def)
qed

lemma is_grid_mult': "is_grid (real_of_int k * 20)"
  using is_grid_mult [of k] by simp

lemma is_grid_zero: "is_grid 0"
  by (simp add: is_grid_def)

lemma is_gridD: "is_grid v \<Longrightarrow> \<exists>k::int. v = real_of_int (k * 20)"
  unfolding is_grid_def GRID_SIZE_def
  by (rule exI [of _ "\<lfloor>v / 20\<rfloor>"]) simp

lemma snap_nonneg: "0 \<le> v \<Longrightarrow> 0 \<le> real_of_int (\<lfloor>v / 20 + 1 / 2\<rfloor> * 20)"
proof -
  assume "0 \<le> v"
  then have "0 \<le> v / 20 + 1 / 2" by simp
  then have "0 \<le> \<lfloor>v / 20 + 1 / 2\<rfloor>" by (simp only: zero_le_floor)
  then show ?thesis by simp
qed

lemma snap_le_grid:
  assumes "v \<le> M" and "is_grid M"
  shows "real_of_int (\<lfloor>v / 20 + 1 / 2\<rfloor> * 20) \<le> M"
proof -
  from assms(2) obtain m :: int where M: "M = real_of_int (m * 20)" by (auto dest: is_gridD)
  with assms(1) have "v / 20 + 1 / 2 < real_of_int (m + 1)" by simp
  then have "\<lfloor>v / 20 + 1 / 2\<rfloor> < m + 1" by (simp only: floor_less_iff)
  then have "\<lfloor>v / 20 + 1 / 2\<rfloor> * 20 \<le> m * 20" by simp
  then have "real_of_int (\<lfloor>v / 20 + 1 / 2\<rfloor> * 20) \<le> real_of_int (m * 20)" by (simp only: of_int_le_iff)
  with M show ?thesis by simp
qed

lemma create_position:
  assumes "create P doc t (Some x) (Some y) container = Inr (Some el)"
  shows "style_top el = snapToGrid (Some (max 0 y))"
    and "style_left el =
           snapToGrid (Math_max (Some 0) (Math_min (Some x)
              (num2 (-) (Some (real_of_int (clientWidth container))) (fst (shapeSize t)))))"
    and "dataset_shapeType el = t"
  using assms
  by (auto simp add: create_def getDefinition_def Let_def set_px_def Math_max_def num2_def
        snapToGrid_Some snapToGrid_None split: option.splits sum.splits)

lemma create_y_ok:
  assumes "create P doc t (Some x) (Some y) container = Inr (Some el)"
  shows "y_ok el"
proof -
  have "style_top el = Some (real_of_int (\<lfloor>max 0 y / 20 + 1 / 2\<rfloor> * 20))"
    using create_position(1) [OF assms] by (simp only: snapToGrid_Some)
  moreover have "0 \<le> real_of_int (\<lfloor>max 0 y / 20 + 1 / 2\<rfloor> * 20)" by (rule snap_nonneg) simp
  ultimately show ?thesis by (simp add: y_ok_def is_grid_mult is_grid_mult')
qed

lemma create_x_ok:
  assumes c: "create P doc t (Some x) (Some y) container = Inr (Some el)"
    and s: "shapeSize t = (Some w, Some h)"
    and m: "maxX = real_of_int (clientWidth container) - w"
    and "0 \<le> maxX" and "is_grid maxX"
  shows "x_ok maxX el"
proof -
  let ?b = "max 0 (min x maxX)"
  have "style_left el = snapToGrid (Some ?b)"
    using create_position(2) [OF c] s m by (simp add: Math_max_def Math_min_def num2_def)
  then have l: "style_left el = Some (real_of_int (\<lfloor>?b / 20 + 1 / 2\<rfloor> * 20))"
    by (simp only: snapToGrid_Some)
  have 1: "0 \<le> real_of_int (\<lfloor>?b / 20 + 1 / 2\<rfloor> * 20)" by (rule snap_nonneg) simp
  have "?b \<le> maxX" using \<open>0 \<le> maxX\<close> by simp
  then have 2: "real_of_int (\<lfloor>?b / 20 + 1 / 2\<rfloor> * 20) \<le> maxX"
    using \<open>is_grid maxX\<close> by (rule snap_le_grid)
  from l 1 2 show ?thesis by (simp add: x_ok_def is_grid_mult is_grid_mult')
qed

lemma handleMove_top:
  "style_top (snd (handleMove container e (c, el))) = style_top el
   \<or> (\<exists>v::real. style_top (snd (handleMove container e (c, el)))
             = Some (max 0 (real_of_int (\<lfloor>v / 20 + 1 / 2\<rfloor> * 20))))"
  by (cases "num2 (+) (sc_initialY c) (num2 (-) (Some (ev_clientY e)) (sc_startY c))")
     (auto simp add: handleMove_def Let_def set_px_def Math_max_def num2_def snapToGrid_Some
        snapToGrid_None)

lemma handleMove_y_ok:
  assumes "y_ok el"
  shows "y_ok (snd (handleMove container e (c, el)))"
proof -
  from handleMove_top [of container e c el] show ?thesis
  proof
    assume "style_top (snd (handleMove container e (c, el))) = style_top el"
    with assms show ?thesis by (simp add: y_ok_def)
  next
    assume "\<exists>v::real. style_top (snd (handleMove container e (c, el)))
             = Some (max 0 (real_of_int (\<lfloor>v / 20 + 1 / 2\<rfloor> * 20)))"
    then obtain v :: real where "style_top (snd (handleMove container e (c, el)))
             = Some (max 0 (real_of_int (\<lfloor>v / 20 + 1 / 2\<rfloor> * 20)))" ..
    then show ?thesis
      by (simp add: y_ok_def max_def is_grid_zero is_grid_mult is_grid_mult')
  qed
qed

lemma handleMove_left:
  assumes "shapeSize (dataset_shapeType el) = (Some w, Some h)"
  shows "style_left (snd (handleMove container e (c, el))) = style_left el
   \<or> (\<exists>v::real. style_left (snd (handleMove container e (c, el)))
             = Some (max 0 (min (real_of_int (\<lfloor>v / 20 + 1 / 2\<rfloor> * 20))
                                (real_of_int (clientWidth container) - w))))"
  using assms
  by (cases "num2 (+) (sc_initialX c) (num2 (-) (Some (ev_clientX e)) (sc_startX c))")
     (auto simp add: handleMove_def Let_def set_px_def Math_max_def Math_min_def num2_def
        snapToGrid_Some snapToGrid_None)

lemma handleMove_x_ok:
  assumes s: "shapeSize (dataset_shapeType el) = (Some w, Some h)"
    and m: "maxX = real_of_int (clientWidth container) - w"
    and "0 \<le> maxX" and "is_grid maxX" and "x_ok maxX el"
  shows "x_ok maxX (snd (handleMove container e (c, el)))"
proof -
  from handleMove_left [OF s, of container e c] show ?thesis
  proof
    assume "style_left (snd (handleMove container e (c, el))) = style_left el"
    with \<open>x_ok maxX el\<close> show ?thesis by (simp add: x_ok_def)
  next
    assume "\<exists>v::real. style_left (snd (handleMove container e (c, el)))
             = Some (max 0 (min (real_of_int (\<lfloor>v / 20 + 1 / 2\<rfloor> * 20))
                                (real_of_int (clientWidth container) - w)))"
    then obtain v :: real where "style_left (snd (handleMove container e (c, el)))
             = Some (max 0 (min (real_of_int (\<lfloor>v / 20 + 1 / 2\<rfloor> * 20)) maxX))"
      using m by auto
    then show ?thesis
      using \<open>0 \<le> maxX\<close> \<open>is_grid maxX\<close>
      by (simp add: x_ok_def max_def min_def is_grid_zero is_grid_mult is_grid_mult')
  qed
qed

lemma shapeSize_square: "shapeSize ''square'' = (Some 80, Some 80)"
  by (simp add: shapeSize_def get_prop_def SHAPE_SIZES_def)

lemma shapeSize_constructor: "shapeSize ''constructor'' = (None, None)"
  by (simp add: shapeSize_def get_prop_def SHAPE_SIZES_def Object_prototype_keys_def)

text \<open>
  What each path keeps by itself. \<open>ShapeFactory.create\<close> snaps last: the x it stores is
  always a multiple of 20 and not negative. \<open>ShapeController.handleMove\<close> clamps last:
  the x it stores is always between 0 and \<open>containerWidth - shapeWidth\<close> when that bound
  is not negative.
\<close>

lemma create_left_on_grid:
  assumes c: "create P doc t (Some x) (Some y) container = Inr (Some el)"
    and s: "shapeSize t = (Some w, Some h)"
  shows "\<exists>v. style_left el = Some v \<and> is_grid v \<and> 0 \<le> v"
proof -
  let ?b = "max 0 (min x (real_of_int (clientWidth container) - w))"
  have "style_left el = snapToGrid (Some ?b)"
    using create_position(2) [OF c] s by (simp add: Math_max_def Math_min_def num2_def)
  then have l: "style_left el = Some (real_of_int (\<lfloor>?b / 20 + 1 / 2\<rfloor> * 20))"
    by (simp only: snapToGrid_Some)
  have "0 \<le> real_of_int (\<lfloor>?b / 20 + 1 / 2\<rfloor> * 20)" by (rule snap_nonneg) simp
  with l is_grid_mult [of "\<lfloor>?b / 20 + 1 / 2\<rfloor>"] show ?thesis by blast
qed

lemma handleMove_left_within:
  assumes s: "shapeSize (dataset_shapeType el) = (Some w, Some h)"
    and m: "maxX = real_of_int (clientWidth container) - w" and "0 \<le> maxX"
    and "\<exists>v. style_left el = Some v \<and> 0 \<le> v \<and> v \<le> maxX"
  shows "\<exists>v. style_left (snd (handleMove container e (c, el))) = Some v \<and> 0 \<le> v \<and> v \<le> maxX"
proof -
  from handleMove_left [OF s, of container e c] show ?thesis
  proof
    assume "style_left (snd (handleMove container e (c, el))) = style_left el"
    with assms(4) show ?thesis by simp
  next
    assume "\<exists>v::real. style_left (snd (handleMove container e (c, el)))
             = Some (max 0 (min (real_of_int (\<lfloor>v / 20 + 1 / 2\<rfloor> * 20))
                                (real_of_int (clientWidth container) - w)))"
    then obtain v :: real where "style_left (snd (handleMove container e (c, el)))
             = Some (max 0 (min (real_of_int (\<lfloor>v / 20 + 1 / 2\<rfloor> * 20)) maxX))"
      using m by auto
    then show ?thesis using \<open>0 \<le> maxX\<close> by simp
  qed
qed

text \<open>
  Where the bound \<open>containerWidth - shapeWidth\<close> is itself a non-negative multiple of 20
  the two orders agree and both paths keep the whole invariant.
\<close>

lemma placed_position_on_grid:
  "(create P doc t (Some x) (Some y) container = Inr (Some el) \<longrightarrow> y_ok el)
   \<and> (y_ok el' \<longrightarrow> y_ok (snd (handleMove container e (c, el'))))
   \<and> (shapeSize t = (Some w, Some h) \<and> maxX = real_of_int (clientWidth container) - w
        \<and> 0 \<le> maxX \<and> is_grid maxX
      \<longrightarrow> (create P doc t (Some x) (Some y) container = Inr (Some el) \<longrightarrow> x_ok maxX el)
        \<and> (dataset_shapeType el' = t \<and> x_ok maxX el'
            \<longrightarrow> x_ok maxX (snd (handleMove container e (c, el')))))"
proof (intro conjI impI)
  assume "create P doc t (Some x) (Some y) container = Inr (Some el)"
  then show "y_ok el" by (rule create_y_ok)
next
  assume "y_ok el'"
  then show "y_ok (snd (handleMove container e (c, el')))" by (rule handleMove_y_ok)
next
  assume "shapeSize t = (Some w, Some h) \<and> maxX = real_of_int (clientWidth container) - w
        \<and> 0 \<le> maxX \<and> is_grid maxX"
    and "create P doc t (Some x) (Some y) container = Inr (Some el)"
  then show "x_ok maxX el" using create_x_ok by blast
next
  assume "shapeSize t = (Some w, Some h) \<and> maxX = real_of_int (clientWidth container) - w
        \<and> 0 \<le> maxX \<and> is_grid maxX"
    and "dataset_shapeType el' = t \<and> x_ok maxX el'"
  then show "x_ok maxX (snd (handleMove container e (c, el')))"
    using handleMove_x_ok [of el' w h maxX container e c] by blast
qed

text \<open>
  Claim C1 fails on the code at the right edge of a build area whose width leaves a bound
  \<open>containerWidth - shapeWidth\<close> off the grid. In a build area 330 wide the bound for a
  square is 250. \<open>ShapeFactory.create\<close> clamps and then snaps: asked for x = 250 it
  stores 260, a multiple of 20 beyond the bound. \<open>ShapeController.handleMove\<close> snaps and
  then clamps: dragged from 240 by 10 it stores 250, within the bound but no multiple of
  20. Each path keeps the half of the invariant that the other one loses.
\<close>

theorem position_right_edge_off_grid:
  "shapeSize ''square'' = (Some 80, Some 80)
   \<and> real_of_int (clientWidth (area_of_width 330)) - 80 = 250
   \<and> create any_platform sample_palette ''square'' (Some 250) (Some 0) (area_of_width 330)
     = Inr (Some ((shape_of_type ''square'')\<lparr>style_left := Some 260\<rparr>))
   \<and> is_grid 260 \<and> (250::real) < 260
   \<and> style_left (snd (handleMove (area_of_width 330) (mouse_at 10)
        (dragging 0 240, (shape_of_type ''square'')\<lparr>style_left := Some 240\<rparr>))) = Some 250
   \<and> \<not> is_grid 250"
proof -
  have p: "selector_plain ''square''"
    by (simp add: selector_plain_def selector_special_char_def backslash_def)
  have 1: "create any_platform sample_palette ''square'' (Some 250) (Some 0) (area_of_width 330)
     = Inr (Some ((shape_of_type ''square'')\<lparr>style_left := Some 260\<rparr>))"
    by (simp add: create_def getDefinition_def querySelector_data_shape_def p sample_palette_def
         shapeSize_square area_of_width_def Math_max_def Math_min_def num2_def snapToGrid_Some
         set_px_def shape_of_type_def)
  have 2: "style_left (snd (handleMove (area_of_width 330) (mouse_at 10)
        (dragging 0 240, (shape_of_type ''square'')\<lparr>style_left := Some 240\<rparr>))) = Some 250"
    by (simp add: handleMove_def Let_def dragging_def mouse_at_def shape_of_type_def shapeSize_square
         area_of_width_def Math_max_def Math_min_def Math_abs_def num_gt_def num2_def
         snapToGrid_Some set_px_def DRAG_THRESHOLD_def)
  have 3: "\<not> is_grid 250" by (simp add: is_grid_def GRID_SIZE_def)
  have 4: "is_grid 260" by (simp add: is_grid_def GRID_SIZE_def)
  from 1 2 3 4 shapeSize_square show ?thesis by (simp add: area_of_width_def)
qed

section \<open>Tap to add\<close>

lemma emit_fields [simp]:
  "children (emit ev a) = children a"
  "elements (emit ev a) = elements a"
  "controllers (emit ev a) = controllers a"
  "next_ref (emit ev a) = next_ref a"
  "palette (emit ev a) = palette a"
  "buildArea (emit ev a) = buildArea a"
  "dd_touch (emit ev a) = dd_touch a"
  "dd_isDragging (emit ev a) = dd_isDragging a"
  "emitted (emit ev a) = emitted a @ [ev]"
  by (simp_all add: emit_def Let_def supplyList_update_def cm_hide_def)

lemma createShape_Some:
  assumes "create P (palette a) t x y (buildArea a) = Inr (Some el)"
  shows "\<exists>a'. createShape P t x y a = Inr a'
           \<and> children a' = children a @ [next_ref a]
           \<and> elements a' = (elements a)(next_ref a \<mapsto> el)
           \<and> emitted a' = emitted a @ [''shapeAdded'']
           \<and> next_ref a' = Suc (next_ref a)
           \<and> dd_touch a' = dd_touch a \<and> dd_isDragging a' = dd_isDragging a"
  using assms by (simp add: createShape_def)

lemma create_defined:
  assumes "getDefinition P doc t = Inr (Some d)"
  shows "\<exists>el. create P doc t x y container = Inr (Some el)"
  using assms by (simp add: create_def Let_def)

lemma create_type:
  assumes "create P doc t x y container = Inr (Some el)"
  shows "dataset_shapeType el = t"
  using assms by (auto simp add: create_def Let_def split: sum.splits option.splits)

lemma tap_is_createShape:
  assumes "data_shape item = Some t" and "t \<noteq> []" and "shapeSize t = (Some w, Some h)"
  shows "handleTapToAdd P item r1 r2 a =
           createShape P t
             (snapToGrid (Some (rect_width (boundingClientRect (buildArea a)) / 2 - w / 2 + (r1 - 0.5) * 40)))
             (snapToGrid (Some (rect_height (boundingClientRect (buildArea a)) / 2 - h / 2 + (r2 - 0.5) * 40))) a"
  using assms by (simp add: handleTapToAdd_def no_shapeType_def shape_of_def Let_def num2_def)

lemma tapTouch_eq: "handleTapToAddTouch P item r1 r2 a = handleTapToAdd P item r1 r2 a"
  by (simp add: handleTapToAddTouch_def handleTapToAdd_def)

lemma tapTouch_some_createShape:
  assumes "\<not> no_shapeType item"
  shows "\<exists>x y. handleTapToAddTouch P item r1 r2 a = createShape P (shape_of item) x y a"
  using assms by (simp add: handleTapToAddTouch_def Let_def) blast

lemma snap_near:
  assumes "0 \<le> r" and "r < 1"
  shows "\<bar>real_of_int (\<lfloor>(c + (r - 0.5) * 40) / 20 + 1 / 2\<rfloor> * 20) - c\<bar> \<le> 30"
proof -
  have "\<bar>real_of_int (\<lfloor>(c + (r - 0.5) * 40) / 20 + 1 / 2\<rfloor> * 20) - (c + (r - 0.5) * 40)\<bar> \<le> 10"
    by (rule snap_close)
  moreover have "\<bar>(r - 0.5) * 40\<bar> \<le> 20" using assms by (simp add: abs_le_iff)
  ultimately show ?thesis by linarith
qed

lemma tap_top:
  assumes c: "create P doc t (Some (real_of_int (\<lfloor>u / 20 + 1 / 2\<rfloor> * 20)))
                 (Some (real_of_int (\<lfloor>(cy + (r - 0.5) * 40) / 20 + 1 / 2\<rfloor> * 20))) container = Inr (Some el)"
    and "0 \<le> r" and "r < 1" and "30 \<le> cy"
  shows "\<exists>y. style_top el = Some y \<and> is_grid y \<and> \<bar>y - cy\<bar> \<le> 30"
proof -
  let ?s = "real_of_int (\<lfloor>(cy + (r - 0.5) * 40) / 20 + 1 / 2\<rfloor> * 20)"
  have n: "\<bar>?s - cy\<bar> \<le> 30" using assms(2,3) by (rule snap_near)
  with \<open>30 \<le> cy\<close> have "0 \<le> ?s" by linarith
  then have "max 0 ?s = ?s" by simp
  then have "style_top el = snapToGrid (Some ?s)"
    using create_position(1) [OF c] by simp
  then have "style_top el = Some ?s" by (simp only: snapToGrid_Some snap_fixed)
  with n show ?thesis using is_grid_mult by blast
qed

lemma tap_left:
  assumes c: "create P doc t (Some (real_of_int (\<lfloor>(cx + (r - 0.5) * 40) / 20 + 1 / 2\<rfloor> * 20)))
                 (Some v) container = Inr (Some el)"
    and s: "shapeSize t = (Some w, Some h)"
    and "0 \<le> r" and "r < 1" and "30 \<le> cx" and "cx + 30 \<le> real_of_int (clientWidth container) - w"
  shows "\<exists>x. style_left el = Some x \<and> is_grid x \<and> \<bar>x - cx\<bar> \<le> 30"
proof -
  let ?s = "real_of_int (\<lfloor>(cx + (r - 0.5) * 40) / 20 + 1 / 2\<rfloor> * 20)"
  have n: "\<bar>?s - cx\<bar> \<le> 30" using assms(3,4) by (rule snap_near)
  with \<open>30 \<le> cx\<close> have 0: "0 \<le> ?s" by linarith
  from n assms(6) have 1: "?s \<le> real_of_int (clientWidth container) - w" by linarith
  from 0 1 have "max 0 (min ?s (real_of_int (clientWidth container) - w)) = ?s" by simp
  then have "style_left el = snapToGrid (Some ?s)"
    using create_position(2) [OF c] s by (simp add: Math_max_def Math_min_def num2_def)
  then have "style_left el = Some ?s" by (simp only: snapToGrid_Some snap_fixed)
  with n show ?thesis using is_grid_mult by blast
qed

lemma tap_square_00:
  "handleTapToAdd any_platform square_item 0 0 (init_app sample_palette (area_of_width 400))
     = Inr (emit ''shapeAdded''
         ((init_app sample_palette (area_of_width 400))
            \<lparr>elements := (\<lambda>r. None)(0 \<mapsto>
                (shape_of_type ''square'')\<lparr>style_left := Some 140, style_top := Some 240\<rparr>),
             controllers := (\<lambda>r. None)(0 \<mapsto> new_ShapeController),
             children := [0], next_ref := Suc 0\<rparr>))"
proof -
  have p: "selector_plain ''square''" by code_simp
  show ?thesis
    by (simp add: handleTapToAdd_def no_shapeType_def shape_of_def Let_def shapeSize_square num2_def
       snapToGrid_Some createShape_def create_def getDefinition_def querySelector_data_shape_def p
       sample_palette_def init_app_def
       area_of_width_def Math_max_def Math_min_def set_px_def shape_of_type_def square_item_def)
qed

text \<open>
  Claim C3 as stated fails. With a build area of 400 by 600 and both random values 0, a tap
  on the square item places the shape at (140, 240); the centre is (160, 260), which
  snapping leaves where it is, and 140 is 20 away from 160, farther than snapping moves.
  A tap on an item of type \<open>constructor\<close>, whose size has no width or height, places a
  shape with no position at all.
\<close>

theorem tap_centre_counterexample:
  "elements (step any_platform (Tap square_item 0 0) (init_app sample_palette (area_of_width 400))) 0
     = Some ((shape_of_type ''square'')\<lparr>style_left := Some 140, style_top := Some 240\<rparr>)
   \<and> snapToGrid (Some ((400 - 80) / 2)) = Some 160
   \<and> snapToGrid (Some ((600 - 80) / 2)) = Some 260
   \<and> (10::real) < \<bar>140 - (400 - 80) / 2\<bar>
   \<and> elements (step any_platform (Tap constructor_item 0 0)
                 (init_app [constructor_item] (area_of_width 400))) 0
     = Some ((shape_of_type ''constructor'')\<lparr>style_left := None, style_top := None\<rparr>)"
proof -
  have "elements (step any_platform (Tap square_item 0 0) (init_app sample_palette (area_of_width 400))) 0
     = Some ((shape_of_type ''square'')\<lparr>style_left := Some 140, style_top := Some 240\<rparr>)"
    by (simp add: tap_square_00 settle_def)
  moreover
  have p: "selector_plain ''constructor''" by code_simp
  have "elements (step any_platform (Tap constructor_item 0 0)
                   (init_app [constructor_item] (area_of_width 400))) 0
     = Some ((shape_of_type ''constructor'')\<lparr>style_left := None, style_top := None\<rparr>)"
    by (simp add: handleTapToAdd_def no_shapeType_def shape_of_def Let_def shapeSize_constructor
       num2_def snapToGrid_None createShape_def create_def getDefinition_def
       querySelector_data_shape_def p settle_def init_app_def
       area_of_width_def Math_max_def Math_min_def set_px_def shape_of_type_def constructor_item_def)
  ultimately show ?thesis by (simp add: snapToGrid_Some)
qed

text \<open>
  Claim C3, amended. For a palette item whose \<open>data-shape\<close> is a non-empty type with a
  definition in the document and a defined size, a click (\<open>handleTapToAdd\<close>) and a touch
  tap (\<open>handleTapToAddTouch\<close>) do the same: the handler returns, exactly one element is
  appended to the build area, it has the item's type, and no other element changes. The
  requested position is the centre \<open>(areaWidth - shapeWidth)/2, (areaHeight - shapeHeight)/2\<close>
  plus a random offset in \<open>[-20, 20)\<close> on each axis, snapped to the grid and then
  clamped by \<open>create\<close>: where the centre coordinate is at least 30 inside the clamping
  bounds, the stored coordinate is a multiple of 20 within 30 of it.
\<close>

theorem tap_places_one_shape_near_centre:
  assumes item: "data_shape item = Some t" "t \<noteq> []"
    and d: "getDefinition P (palette a) t = Inr (Some d)"
    and s: "shapeSize t = (Some w, Some h)"
    and r: "0 \<le> r1" "r1 < 1" "0 \<le> r2" "r2 < 1"
    and cx: "cx = rect_width (boundingClientRect (buildArea a)) / 2 - w / 2"
    and cy: "cy = rect_height (boundingClientRect (buildArea a)) / 2 - h / 2"
  shows "handleTapToAddTouch P item r1 r2 a = handleTapToAdd P item r1 r2 a
     \<and> (\<exists>a'. handleTapToAdd P item r1 r2 a = Inr a'
          \<and> children a' = children a @ [next_ref a]
          \<and> (\<forall>q. q \<noteq> next_ref a \<longrightarrow> elements a' q = elements a q)
          \<and> (\<exists>el. elements a' (next_ref a) = Some el
                 \<and> dataset_shapeType el = t
                 \<and> (30 \<le> cy \<longrightarrow> (\<exists>y. style_top el = Some y \<and> is_grid y \<and> \<bar>y - cy\<bar> \<le> 30))
                 \<and> (30 \<le> cx \<and> cx + 30 \<le> real_of_int (clientWidth (buildArea a)) - w
                      \<longrightarrow> (\<exists>x. style_left el = Some x \<and> is_grid x \<and> \<bar>x - cx\<bar> \<le> 30))))"
proof -
  let ?X = "snapToGrid (Some (cx + (r1 - 0.5) * 40))"
  let ?Y = "snapToGrid (Some (cy + (r2 - 0.5) * 40))"
  have tap: "handleTapToAdd P item r1 r2 a = createShape P t ?X ?Y a"
    using tap_is_createShape [OF item s] cx cy by simp
  obtain el where c: "create P (palette a) t ?X ?Y (buildArea a) = Inr (Some el)"
    using create_defined [OF d] by blast
  have c': "create P (palette a) t
              (Some (real_of_int (\<lfloor>(cx + (r1 - 0.5) * 40) / 20 + 1 / 2\<rfloor> * 20)))
              (Some (real_of_int (\<lfloor>(cy + (r2 - 0.5) * 40) / 20 + 1 / 2\<rfloor> * 20))) (buildArea a)
               = Inr (Some el)"
    using c by (simp only: snapToGrid_Some)
  obtain a' where a': "handleTapToAdd P item r1 r2 a = Inr a'"
      and 1: "children a' = children a @ [next_ref a]"
      and e: "elements a' = (elements a)(next_ref a \<mapsto> el)"
    unfolding tap using createShape_Some [OF c] by blast
  have 2: "\<forall>q. q \<noteq> next_ref a \<longrightarrow> elements a' q = elements a q"
    by (simp add: e)
  have 3: "elements a' (next_ref a) = Some el" by (simp add: e)
  have 4: "dataset_shapeType el = t" by (rule create_position(3) [OF c'])
  have 5: "30 \<le> cy \<longrightarrow> (\<exists>y. style_top el = Some y \<and> is_grid y \<and> \<bar>y - cy\<bar> \<le> 30)"
    using tap_top [OF c' r(3,4)] by blast
  have 6: "30 \<le> cx \<and> cx + 30 \<le> real_of_int (clientWidth (buildArea a)) - w
                 \<longrightarrow> (\<exists>x. style_left el = Some x \<and> is_grid x \<and> \<bar>x - cx\<bar> \<le> 30)"
    using tap_left [OF c' s r(1,2)] by blast
  from a' 1 2 3 4 5 6 tapTouch_eq show ?thesis by blast
qed

lemma getDefinition_square:
  "getDefinition P sample_palette ''square''
     = Inr (Some \<lparr>def_svg = ''<rect/>'', def_width = Some 80, def_height = Some 80\<rparr>)"
proof -
  have p: "selector_plain ''square''" by code_simp
  show ?thesis
    by (simp add: getDefinition_def querySelector_data_shape_def p sample_palette_def
          shapeSize_square)
qed

theorem tap_places_one_shape_near_centre_witness:
  "children (step any_platform (Tap square_item (1 / 2) (1 / 2))
               (init_app sample_palette (area_of_width 400))) = [0]
   \<and> (\<exists>el x y. elements (step any_platform (Tap square_item (1 / 2) (1 / 2))
                      (init_app sample_palette (area_of_width 400))) 0 = Some el
         \<and> dataset_shapeType el = ''square''
         \<and> style_left el = Some x \<and> \<bar>x - 160\<bar> \<le> 30
         \<and> style_top el = Some y \<and> \<bar>y - 260\<bar> \<le> 30)"
proof -
  let ?a = "init_app sample_palette (area_of_width 400)"
  have i: "data_shape square_item = Some ''square''" "''square'' \<noteq> []"
    by (simp_all add: square_item_def)
  have d: "getDefinition any_platform (palette ?a) ''square''
             = Inr (Some \<lparr>def_svg = ''<rect/>'', def_width = Some 80, def_height = Some 80\<rparr>)"
    by (simp add: getDefinition_square init_app_def)
  have r: "(0::real) \<le> 1 / 2" "(1 / 2 :: real) < 1" by simp_all
  have cx: "(160::real) = rect_width (boundingClientRect (buildArea ?a)) / 2 - 80 / 2"
    by (simp add: init_app_def area_of_width_def)
  have cy: "(260::real) = rect_height (boundingClientRect (buildArea ?a)) / 2 - 80 / 2"
    by (simp add: init_app_def area_of_width_def)
  have f: "children ?a = []" "next_ref ?a = 0" "clientWidth (buildArea ?a) = 400"
    by (simp_all add: init_app_def area_of_width_def)
  from tap_places_one_shape_near_centre [OF i d shapeSize_square r r cx cy]
  obtain a' where a': "handleTapToAdd any_platform square_item (1 / 2) (1 / 2) ?a = Inr a'"
    and c: "children a' = [0]"
    and e: "\<exists>el. elements a' 0 = Some el \<and> dataset_shapeType el = ''square''
           \<and> (\<exists>y. style_top el = Some y \<and> is_grid y \<and> \<bar>y - 260\<bar> \<le> 30)
           \<and> (\<exists>x. style_left el = Some x \<and> is_grid x \<and> \<bar>x - 160\<bar> \<le> 30)"
    unfolding f by auto
  have st: "step any_platform (Tap square_item (1 / 2) (1 / 2)) ?a = a'"
    by (simp add: a' settle_def)
  from c e show ?thesis unfolding st by blast
qed

section \<open>Touch: tap or drag\<close>

lemma handleTouchMove_frame:
  "dd_touch (handleTouchMove m a) = dd_touch a"
  "children (handleTouchMove m a) = children a"
  "elements (handleTouchMove m a) = elements a"
  by (simp_all add: handleTouchMove_def Let_def split: option.splits prod.splits)

lemma handleTouchMove_isDragging:
  "dd_touch a = Some (item, sx, sy) \<Longrightarrow>
   dd_isDragging (handleTouchMove m a) = (dd_isDragging a \<or> beyond_threshold (sx, sy) m)"
  by (simp add: handleTouchMove_def Let_def beyond_threshold_def)

lemma handleTouchMove_only_isDragging:
  "handleTouchMove m a = a\<lparr>dd_isDragging := dd_isDragging (handleTouchMove m a)\<rparr>"
  by (simp add: handleTouchMove_def Let_def split: option.splits prod.splits)

lemma fold_moves:
  assumes "dd_touch a = Some (item, sx, sy)"
  shows "fold handleTouchMove moves a
           = a\<lparr>dd_isDragging := (dd_isDragging a \<or> (\<exists>m \<in> set moves. beyond_threshold (sx, sy) m))\<rparr>"
  using assms
proof (induction moves arbitrary: a)
  case Nil
  then show ?case by simp
next
  case (Cons m moves)
  have t: "dd_touch (handleTouchMove m a) = Some (item, sx, sy)"
    using Cons.prems by (simp add: handleTouchMove_frame)
  have "fold handleTouchMove (m # moves) a = fold handleTouchMove moves (handleTouchMove m a)"
    by simp
  also have "\<dots> = (handleTouchMove m a)\<lparr>dd_isDragging :=
        (dd_isDragging (handleTouchMove m a) \<or> (\<exists>m \<in> set moves. beyond_threshold (sx, sy) m))\<rparr>"
    by (rule Cons.IH [OF t])
  also have "\<dots> = a\<lparr>dd_isDragging :=
        (dd_isDragging (handleTouchMove m a) \<or> (\<exists>m \<in> set moves. beyond_threshold (sx, sy) m))\<rparr>"
    by (subst handleTouchMove_only_isDragging) simp
  finally show ?case
    using Cons.prems by (simp add: handleTouchMove_isDragging disj_assoc)
qed

lemma gesture_state:
  "gesture item start moves a
     = a\<lparr>dd_touch := Some (item, fst start, snd start),
         dd_isDragging := (\<exists>m \<in> set moves. beyond_threshold start m)\<rparr>"
  unfolding gesture_def
  by (subst fold_moves [where item = item and sx = "fst start" and sy = "snd start"])
     (simp_all add: handleTouchStart_def)

lemma createShape_dd:
  "createShape P t x y (a\<lparr>dd_touch := u, dd_isDragging := v\<rparr>)
     = (case createShape P t x y a of
          Inl e \<Rightarrow> Inl e
        | Inr a1 \<Rightarrow> Inr (a1\<lparr>dd_touch := u, dd_isDragging := v\<rparr>))"
  by (simp add: createShape_def emit_def Let_def supplyList_update_def placed_def
        split: sum.splits option.splits)

lemma handleTapToAddTouch_dd:
  "handleTapToAddTouch P item r1 r2 (a\<lparr>dd_touch := u, dd_isDragging := v\<rparr>)
     = (case handleTapToAddTouch P item r1 r2 a of
          Inl e \<Rightarrow> Inl e
        | Inr a1 \<Rightarrow> Inr (a1\<lparr>dd_touch := u, dd_isDragging := v\<rparr>))"
  by (simp add: handleTapToAddTouch_def Let_def createShape_dd)

lemma handleTouchEnd_gesture:
  "handleTouchEnd P touch r1 r2 (gesture item start moves a)
     = (case (if (\<exists>m \<in> set moves. beyond_threshold start m)
              then (if isOverBuildArea touch (boundingClientRect (buildArea a))
                    then createShape P (shape_of item)
                           (drop_x (shape_of item) (fst touch) (boundingClientRect (buildArea a)))
                           (drop_y (shape_of item) (snd touch) (boundingClientRect (buildArea a))) a
                    else Inr a)
              else handleTapToAddTouch P item r1 r2 a) of
          Inl e \<Rightarrow> Inl e
        | Inr a1 \<Rightarrow> Inr (a1\<lparr>dd_touch := None, dd_isDragging := False\<rparr>))"
  unfolding gesture_state
  by (simp add: handleTouchEnd_def Let_def createShape_dd handleTapToAddTouch_dd
        split: sum.splits)

lemma drop_x_snap:
  assumes "shapeSize t = (Some w, Some h)"
  shows "drop_x t cx rect = snapToGrid (Some (cx - rect_left rect - w / 2))"
  using assms by (simp add: drop_x_def num2_def)

lemma drop_y_snap:
  assumes "shapeSize t = (Some w, Some h)"
  shows "drop_y t cy rect = snapToGrid (Some (cy - rect_top rect - h / 2))"
  using assms by (simp add: drop_y_def num2_def)

lemma snap_grid: "is_grid v \<Longrightarrow> snapToGrid (Some v) = Some v"
proof -
  assume "is_grid v"
  then obtain k :: int where k: "v = real_of_int (k * 20)" using is_gridD by blast
  show ?thesis unfolding k by (simp only: snapToGrid_Some snap_fixed)
qed

lemma is_grid_max0: "is_grid v \<Longrightarrow> is_grid (max 0 v)"
  by (simp add: max_def is_grid_zero)

text \<open>What \<open>create\<close> stores for a requested position that is on the grid.\<close>

lemma create_stores:
  assumes c: "create P doc t (Some X) (Some Y) container = Inr (Some el)"
    and s: "shapeSize t = (Some w, Some h)"
    and g: "is_grid X" "is_grid Y"
  shows "style_top el = Some (max 0 Y)"
    and "style_left el = snapToGrid (Some (max 0 (min X (real_of_int (clientWidth container) - w))))"
    and "0 \<le> X \<and> X \<le> real_of_int (clientWidth container) - w \<longrightarrow> style_left el = Some X"
proof -
  show "style_top el = Some (max 0 Y)"
    using create_position(1) [OF c] snap_grid [OF is_grid_max0 [OF g(2)]] by simp
  show l: "style_left el = snapToGrid (Some (max 0 (min X (real_of_int (clientWidth container) - w))))"
    using create_position(2) [OF c] s by (simp add: Math_max_def Math_min_def num2_def)
  show "0 \<le> X \<and> X \<le> real_of_int (clientWidth container) - w \<longrightarrow> style_left el = Some X"
  proof
    assume "0 \<le> X \<and> X \<le> real_of_int (clientWidth container) - w"
    then have "max 0 (min X (real_of_int (clientWidth container) - w)) = X" by simp
    with l snap_grid [OF g(1)] show "style_left el = Some X" by simp
  qed
qed

lemma snap_is_grid: "snapToGrid (Some v) = Some X \<Longrightarrow> is_grid X \<and> \<bar>X - v\<bar> \<le> 10"
  using snap_close [of v] is_grid_mult [of "\<lfloor>v / 20 + 1 / 2\<rfloor>"]
  by (auto simp only: snapToGrid_Some option.inject)

lemma gesture_beam:
  "gesture beam_item (0, 0) [(10, 0)] (init_app sample_palette (area_of_width 400))
     = (init_app sample_palette (area_of_width 400))
         \<lparr>dd_touch := Some (beam_item, 0, 0), dd_isDragging := True\<rparr>"
  by (simp add: gesture_state beyond_threshold_def DRAG_THRESHOLD_def)

lemma gesture_square:
  "gesture square_item (0, 0) [(10, 0)] (init_app sample_palette (area_of_width 400))
     = (init_app sample_palette (area_of_width 400))
         \<lparr>dd_touch := Some (square_item, 0, 0), dd_isDragging := True\<rparr>"
  by (simp add: gesture_state beyond_threshold_def DRAG_THRESHOLD_def)

text \<open>
  Claim C4 as stated fails in its second half. In a build area 400 wide and 600 high:
  a drag of the \<open>beam\<close> item, which has no \<open>.shape-svg\<close>, that ends over the build
  area at (200, 300) places nothing; and a drag of the square item (80 by 80) that ends
  over the build area at its right edge (400, 300) asks for x = 360 and gets the shape
  stored at x = 320, so that the centre of the shape is 40 to the left of the touch
  point, farther than snapping moves it.
\<close>

theorem drag_drop_counterexample:
  "dd_isDragging (gesture beam_item (0, 0) [(10, 0)] (init_app sample_palette (area_of_width 400)))
   \<and> isOverBuildArea (200, 300) (boundingClientRect (area_of_width 400))
   \<and> children (step any_platform (TouchEnd (200, 300) 0 0)
                 (gesture beam_item (0, 0) [(10, 0)] (init_app sample_palette (area_of_width 400)))) = []
   \<and> dd_isDragging (gesture square_item (0, 0) [(10, 0)] (init_app sample_palette (area_of_width 400)))
   \<and> isOverBuildArea (400, 300) (boundingClientRect (area_of_width 400))
   \<and> drop_x ''square'' 400 (boundingClientRect (area_of_width 400)) = Some 360
   \<and> elements (step any_platform (TouchEnd (400, 300) 0 0)
                 (gesture square_item (0, 0) [(10, 0)] (init_app sample_palette (area_of_width 400)))) 0
       = Some ((shape_of_type ''square'')\<lparr>style_left := Some 320, style_top := Some 260\<rparr>)
   \<and> (10::real) < \<bar>(320 + 80 / 2) - 400\<bar>"
proof -
  have p: "selector_plain ''beam''" "selector_plain ''square''" by code_simp+
  have 1: "children (step any_platform (TouchEnd (200, 300) 0 0)
                 (gesture beam_item (0, 0) [(10, 0)] (init_app sample_palette (area_of_width 400)))) = []"
    unfolding gesture_beam
    by (simp add: handleTouchEnd_def settle_def isOverBuildArea_def Let_def shape_of_def
          beam_item_def createShape_def create_def getDefinition_def querySelector_data_shape_def p
          sample_palette_def init_app_def area_of_width_def)
  have 2: "drop_x ''square'' 400 (boundingClientRect (area_of_width 400)) = Some 360"
    by (simp add: drop_x_def shapeSize_square num2_def snapToGrid_Some area_of_width_def)
  have 3: "elements (step any_platform (TouchEnd (400, 300) 0 0)
                 (gesture square_item (0, 0) [(10, 0)] (init_app sample_palette (area_of_width 400)))) 0
       = Some ((shape_of_type ''square'')\<lparr>style_left := Some 320, style_top := Some 260\<rparr>)"
    unfolding gesture_square
    by (simp add: handleTouchEnd_def settle_def isOverBuildArea_def Let_def shape_of_def
          square_item_def createShape_def create_def getDefinition_def querySelector_data_shape_def p
          drop_x_def drop_y_def shapeSize_square num2_def snapToGrid_Some Math_max_def Math_min_def
          set_px_def shape_of_type_def sample_palette_def init_app_def area_of_width_def)
  have 4: "dd_isDragging (gesture beam_item (0, 0) [(10, 0)] (init_app sample_palette (area_of_width 400)))"
    unfolding gesture_beam by simp
  have 5: "dd_isDragging (gesture square_item (0, 0) [(10, 0)] (init_app sample_palette (area_of_width 400)))"
    unfolding gesture_square by simp
  have 6: "isOverBuildArea (200, 300) (boundingClientRect (area_of_width 400))"
          "isOverBuildArea (400, 300) (boundingClientRect (area_of_width 400))"
    by (simp_all add: isOverBuildArea_def area_of_width_def)
  from 1 2 3 4 5 6 show ?thesis by simp
qed

text \<open>
  Claim C4, amended. After \<open>touchstart\<close> on a palette item and any list of
  \<open>touchmove\<close> events, the gesture counts as a drag exactly when some \<open>touchmove\<close>
  was more than \<open>DRAG_THRESHOLD = 5\<close> away from the start on the x axis or on the y
  axis. On \<open>touchend\<close>:
  \<^item> a gesture that is no drag does what \<open>handleTapToAddTouch\<close> does on the item, and
    the touch state is reset; when the item has a non-empty type with a definition, the
    handler returns and exactly one element of that type is appended;
  \<^item> a drag that ends outside the build area, or on an item whose type has no definition,
    places nothing and resets the touch state;
  \<^item> a drag that ends over the build area on an item whose type has a definition and a
    defined size returns, appends exactly one element of the item's type, changes no other
    element and resets the touch state. The position asked for is the touch point relative
    to the build area minus half the size of the shape, snapped to the grid, so the centre
    of the shape asked for is within 10 of the touch point on each axis. \<open>create\<close>
    then clamps it: the shape is stored at \<open>y\<close> or at 0 if \<open>y\<close> is negative, and at
    \<open>x\<close> when \<open>0 \<le> x \<le> containerWidth - shapeWidth\<close>, else at the snapped bound;
  \<^item> when \<open>querySelector\<close> throws on the type of a drag over the build area, the
    exception leaves \<open>handleTouchEnd\<close>.
\<close>

theorem touch_tap_or_drag:
  fixes w h :: real
  assumes g: "g = gesture item start moves a"
    and t: "t = shape_of item"
    and rect: "rect = boundingClientRect (buildArea a)"
    and cw: "cw = real_of_int (clientWidth (buildArea a))"
  shows "DRAG_THRESHOLD = 5
   \<and> dd_isDragging g
       = (\<exists>m \<in> set moves. \<bar>fst m - fst start\<bar> > DRAG_THRESHOLD \<or> \<bar>snd m - snd start\<bar> > DRAG_THRESHOLD)
   \<and> (\<not> dd_isDragging g \<longrightarrow>
        handleTouchEnd P touch r1 r2 g
          = (case handleTapToAddTouch P item r1 r2 a of
               Inl e \<Rightarrow> Inl e
             | Inr a1 \<Rightarrow> Inr (a1\<lparr>dd_touch := None, dd_isDragging := False\<rparr>)))
   \<and> (\<not> dd_isDragging g \<and> \<not> no_shapeType item \<and> getDefinition P (palette a) t = Inr (Some d) \<longrightarrow>
        (\<exists>a' el. handleTouchEnd P touch r1 r2 g = Inr a'
            \<and> children a' = children a @ [next_ref a]
            \<and> elements a' = (elements a)(next_ref a \<mapsto> el)
            \<and> dataset_shapeType el = t
            \<and> dd_touch a' = None \<and> \<not> dd_isDragging a'))
   \<and> (dd_isDragging g \<and> \<not> isOverBuildArea touch rect \<longrightarrow>
        handleTouchEnd P touch r1 r2 g = Inr (a\<lparr>dd_touch := None, dd_isDragging := False\<rparr>))
   \<and> (dd_isDragging g \<and> isOverBuildArea touch rect \<and> getDefinition P (palette a) t = Inr None \<longrightarrow>
        handleTouchEnd P touch r1 r2 g = Inr (a\<lparr>dd_touch := None, dd_isDragging := False\<rparr>))
   \<and> (dd_isDragging g \<and> isOverBuildArea touch rect \<and> getDefinition P (palette a) t = Inl err \<longrightarrow>
        handleTouchEnd P touch r1 r2 g = Inl err)
   \<and> (dd_isDragging g \<and> isOverBuildArea touch rect \<and> getDefinition P (palette a) t = Inr (Some d)
        \<and> shapeSize t = (Some w, Some h) \<longrightarrow>
        (\<exists>a' el x y. handleTouchEnd P touch r1 r2 g = Inr a'
            \<and> children a' = children a @ [next_ref a]
            \<and> elements a' = (elements a)(next_ref a \<mapsto> el)
            \<and> dataset_shapeType el = t
            \<and> dd_touch a' = None \<and> \<not> dd_isDragging a'
            \<and> Some x = snapToGrid (Some (fst touch - rect_left rect - w / 2))
            \<and> Some y = snapToGrid (Some (snd touch - rect_top rect - h / 2))
            \<and> \<bar>x + w / 2 - (fst touch - rect_left rect)\<bar> \<le> 10
            \<and> \<bar>y + h / 2 - (snd touch - rect_top rect)\<bar> \<le> 10
            \<and> style_top el = Some (max 0 y)
            \<and> style_left el = snapToGrid (Some (max 0 (min x (cw - w))))
            \<and> (0 \<le> x \<and> x \<le> cw - w \<longrightarrow> style_left el = Some x)))"
proof -
  let ?d = "\<exists>m \<in> set moves. beyond_threshold start m"
  let ?reset = "\<lambda>r. case r of Inl e \<Rightarrow> Inl e
                        | Inr a1 \<Rightarrow> Inr (a1\<lparr>dd_touch := None, dd_isDragging := False\<rparr>)"
  have gs: "g = a\<lparr>dd_touch := Some (item, fst start, snd start), dd_isDragging := ?d\<rparr>"
    unfolding g by (rule gesture_state)
  have dg: "dd_isDragging g = ?d" unfolding gs by simp
  have te: "handleTouchEnd P touch r1 r2 g
     = ?reset (if ?d
               then (if isOverBuildArea touch rect
                     then createShape P t (drop_x t (fst touch) rect) (drop_y t (snd touch) rect) a
                     else Inr a)
               else handleTapToAddTouch P item r1 r2 a)"
    unfolding g t rect by (rule handleTouchEnd_gesture)
  have 1: "DRAG_THRESHOLD = 5" by (simp add: DRAG_THRESHOLD_def)
  have 2: "dd_isDragging g
       = (\<exists>m \<in> set moves. \<bar>fst m - fst start\<bar> > DRAG_THRESHOLD \<or> \<bar>snd m - snd start\<bar> > DRAG_THRESHOLD)"
    unfolding dg by (simp add: beyond_threshold_def)
  have 3: "\<not> dd_isDragging g \<longrightarrow>
        handleTouchEnd P touch r1 r2 g = ?reset (handleTapToAddTouch P item r1 r2 a)"
    unfolding te dg by simp
  have 4: "\<not> dd_isDragging g \<and> \<not> no_shapeType item \<and> getDefinition P (palette a) t = Inr (Some d) \<longrightarrow>
        (\<exists>a' el. handleTouchEnd P touch r1 r2 g = Inr a'
            \<and> children a' = children a @ [next_ref a]
            \<and> elements a' = (elements a)(next_ref a \<mapsto> el)
            \<and> dataset_shapeType el = t
            \<and> dd_touch a' = None \<and> \<not> dd_isDragging a')"
  proof
    assume h: "\<not> dd_isDragging g \<and> \<not> no_shapeType item \<and> getDefinition P (palette a) t = Inr (Some d)"
    then obtain x y where xy: "handleTapToAddTouch P item r1 r2 a = createShape P t x y a"
      unfolding t using tapTouch_some_createShape by blast
    from h obtain el where c: "create P (palette a) t x y (buildArea a) = Inr (Some el)"
      using create_defined by blast
    obtain a1 where a1: "createShape P t x y a = Inr a1"
        "children a1 = children a @ [next_ref a]"
        "elements a1 = (elements a)(next_ref a \<mapsto> el)"
      using createShape_Some [OF c] by blast
    let ?a' = "a1\<lparr>dd_touch := None, dd_isDragging := False\<rparr>"
    have e: "handleTouchEnd P touch r1 r2 g = Inr ?a'"
      using 3 h by (simp add: xy a1(1))
    have "handleTouchEnd P touch r1 r2 g = Inr ?a'
            \<and> children ?a' = children a @ [next_ref a]
            \<and> elements ?a' = (elements a)(next_ref a \<mapsto> el)
            \<and> dataset_shapeType el = t
            \<and> dd_touch ?a' = None \<and> \<not> dd_isDragging ?a'"
      using e a1(2,3) create_type [OF c] by simp
    then show "\<exists>a' el. handleTouchEnd P touch r1 r2 g = Inr a'
            \<and> children a' = children a @ [next_ref a]
            \<and> elements a' = (elements a)(next_ref a \<mapsto> el)
            \<and> dataset_shapeType el = t
            \<and> dd_touch a' = None \<and> \<not> dd_isDragging a'"
      by blast
  qed
  have 5: "dd_isDragging g \<and> \<not> isOverBuildArea touch rect \<longrightarrow>
        handleTouchEnd P touch r1 r2 g = Inr (a\<lparr>dd_touch := None, dd_isDragging := False\<rparr>)"
    unfolding te dg by simp
  have 6: "dd_isDragging g \<and> isOverBuildArea touch rect \<and> getDefinition P (palette a) t = Inr None \<longrightarrow>
        handleTouchEnd P touch r1 r2 g = Inr (a\<lparr>dd_touch := None, dd_isDragging := False\<rparr>)"
    unfolding te dg by (simp add: createShape_def create_def)
  have 7: "dd_isDragging g \<and> isOverBuildArea touch rect \<and> getDefinition P (palette a) t = Inl err \<longrightarrow>
        handleTouchEnd P touch r1 r2 g = Inl err"
    unfolding te dg by (simp add: createShape_def create_def)
  have 8: "dd_isDragging g \<and> isOverBuildArea touch rect \<and> getDefinition P (palette a) t = Inr (Some d)
        \<and> shapeSize t = (Some w, Some h) \<longrightarrow>
        (\<exists>a' el x y. handleTouchEnd P touch r1 r2 g = Inr a'
            \<and> children a' = children a @ [next_ref a]
            \<and> elements a' = (elements a)(next_ref a \<mapsto> el)
            \<and> dataset_shapeType el = t
            \<and> dd_touch a' = None \<and> \<not> dd_isDragging a'
            \<and> Some x = snapToGrid (Some (fst touch - rect_left rect - w / 2))
            \<and> Some y = snapToGrid (Some (snd touch - rect_top rect - h / 2))
            \<and> \<bar>x + w / 2 - (fst touch - rect_left rect)\<bar> \<le> 10
            \<and> \<bar>y + h / 2 - (snd touch - rect_top rect)\<bar> \<le> 10
            \<and> style_top el = Some (max 0 y)
            \<and> style_left el = snapToGrid (Some (max 0 (min x (cw - w))))
            \<and> (0 \<le> x \<and> x \<le> cw - w \<longrightarrow> style_left el = Some x))"
  proof
    assume h: "dd_isDragging g \<and> isOverBuildArea touch rect \<and> getDefinition P (palette a) t = Inr (Some d)
        \<and> shapeSize t = (Some w, Some h)"
    then have s: "shapeSize t = (Some w, Some h)" by simp
    obtain x :: real where x: "snapToGrid (Some (fst touch - rect_left rect - w / 2)) = Some x"
      by (simp add: snapToGrid_Some)
    obtain y :: real where y: "snapToGrid (Some (snd touch - rect_top rect - h / 2)) = Some y"
      by (simp add: snapToGrid_Some)
    have dx: "drop_x t (fst touch) rect = Some x" using drop_x_snap [OF s] x by simp
    have dy: "drop_y t (snd touch) rect = Some y" using drop_y_snap [OF s] y by simp
    have gx: "is_grid x" "\<bar>x - (fst touch - rect_left rect - w / 2)\<bar> \<le> 10"
      using snap_is_grid [OF x] by simp_all
    have gy: "is_grid y" "\<bar>y - (snd touch - rect_top rect - h / 2)\<bar> \<le> 10"
      using snap_is_grid [OF y] by simp_all
    from h obtain el where c: "create P (palette a) t (Some x) (Some y) (buildArea a) = Inr (Some el)"
      using create_defined by blast
    obtain a1 where a1: "createShape P t (Some x) (Some y) a = Inr a1"
        "children a1 = children a @ [next_ref a]"
        "elements a1 = (elements a)(next_ref a \<mapsto> el)"
      using createShape_Some [OF c] by blast
    have e: "handleTouchEnd P touch r1 r2 g = Inr (a1\<lparr>dd_touch := None, dd_isDragging := False\<rparr>)"
      unfolding te using h dg by (simp add: dx dy a1(1))
    have p1: "style_top el = Some (max 0 y)"
      by (rule create_stores(1) [OF c s gx(1) gy(1)])
    have p2: "style_left el = snapToGrid (Some (max 0 (min x (cw - w))))"
      unfolding cw by (rule create_stores(2) [OF c s gx(1) gy(1)])
    have p3: "0 \<le> x \<and> x \<le> cw - w \<longrightarrow> style_left el = Some x"
      unfolding cw by (rule create_stores(3) [OF c s gx(1) gy(1)])
    have n1: "\<bar>x + w / 2 - (fst touch - rect_left rect)\<bar> \<le> 10" using gx(2) by (simp add: algebra_simps)
    have n2: "\<bar>y + h / 2 - (snd touch - rect_top rect)\<bar> \<le> 10" using gy(2) by (simp add: algebra_simps)
    let ?a' = "a1\<lparr>dd_touch := None, dd_isDragging := False\<rparr>"
    have "handleTouchEnd P touch r1 r2 g = Inr ?a'
            \<and> children ?a' = children a @ [next_ref a]
            \<and> elements ?a' = (elements a)(next_ref a \<mapsto> el)
            \<and> dataset_shapeType el = t
            \<and> dd_touch ?a' = None \<and> \<not> dd_isDragging ?a'
            \<and> Some x = snapToGrid (Some (fst touch - rect_left rect - w / 2))
            \<and> Some y = snapToGrid (Some (snd touch - rect_top rect - h / 2))
            \<and> \<bar>x + w / 2 - (fst touch - rect_left rect)\<bar> \<le> 10
            \<and> \<bar>y + h / 2 - (snd touch - rect_top rect)\<bar> \<le> 10
            \<and> style_top el = Some (max 0 y)
            \<and> style_left el = snapToGrid (Some (max 0 (min x (cw - w))))
            \<and> (0 \<le> x \<and> x \<le> cw - w \<longrightarrow> style_left el = Some x)"
      using e a1(2,3) create_type [OF c] x y n1 n2 p1 p2 p3 by simp
    then show "\<exists>a' el x y. handleTouchEnd P touch r1 r2 g = Inr a'
            \<and> children a' = children a @ [next_ref a]
            \<and> elements a' = (elements a)(next_ref a \<mapsto> el)
            \<and> dataset_shapeType el = t
            \<and> dd_touch a' = None \<and> \<not> dd_isDragging a'
            \<and> Some x = snapToGrid (Some (fst touch - rect_left rect - w / 2))
            \<and> Some y = snapToGrid (Some (snd touch - rect_top rect - h / 2))
            \<and> \<bar>x + w / 2 - (fst touch - rect_left rect)\<bar> \<le> 10
            \<and> \<bar>y + h / 2 - (snd touch - rect_top rect)\<bar> \<le> 10
            \<and> style_top el = Some (max 0 y)
            \<and> style_left el = snapToGrid (Some (max 0 (min x (cw - w))))
            \<and> (0 \<le> x \<and> x \<le> cw - w \<longrightarrow> style_left el = Some x)"
      by blast
  qed
  from 1 2 3 4 5 6 7 8 show ?thesis by blast
qed

theorem touch_tap_or_drag_witness:
  "dd_isDragging (gesture square_item (0, 0) [(3, 0), (10, 2)] (init_app sample_palette (area_of_width 400)))
   \<and> \<not> dd_isDragging (gesture square_item (0, 0) [(3, 0), (4, - 5)] (init_app sample_palette (area_of_width 400)))
   \<and> isOverBuildArea (200, 300) (boundingClientRect (area_of_width 400))
   \<and> (\<exists>a' el. handleTouchEnd any_platform (200, 300) 0 0
                  (gesture square_item (0, 0) [(3, 0), (10, 2)] (init_app sample_palette (area_of_width 400)))
                 = Inr a'
         \<and> children a' = [0]
         \<and> elements a' 0 = Some el
         \<and> dataset_shapeType el = ''square''
         \<and> style_left el = Some 160 \<and> style_top el = Some 260
         \<and> dd_touch a' = None \<and> \<not> dd_isDragging a')
   \<and> (\<exists>a' el. handleTouchEnd any_platform (200, 300) 0 0
                  (gesture square_item (0, 0) [(3, 0), (4, - 5)] (init_app sample_palette (area_of_width 400)))
                 = Inr a'
         \<and> children a' = [0]
         \<and> elements a' 0 = Some el
         \<and> dataset_shapeType el = ''square'')"
proof -
  let ?a = "init_app sample_palette (area_of_width 400)"
  let ?rect = "boundingClientRect (area_of_width 400)"
  have f: "children ?a = []" "next_ref ?a = 0" "buildArea ?a = area_of_width 400"
      "palette ?a = sample_palette" "clientWidth (area_of_width 400) = 400"
      "rect_left ?rect = 0" "rect_top ?rect = 0"
    by (simp_all add: init_app_def area_of_width_def)
  have so: "shape_of square_item = ''square''" "\<not> no_shapeType square_item"
    by (simp_all add: shape_of_def no_shapeType_def square_item_def)
  have ov: "isOverBuildArea (200, 300) ?rect"
    by (simp add: isOverBuildArea_def area_of_width_def)
  have sx: "snapToGrid (Some (200 - 80 / 2)) = Some 160" "snapToGrid (Some (300 - 80 / 2)) = Some 260"
    by (simp_all add: snapToGrid_Some)
  have d: "getDefinition any_platform sample_palette ''square''
             = Inr (Some \<lparr>def_svg = ''<rect/>'', def_width = Some 80, def_height = Some 80\<rparr>)"
    by (rule getDefinition_square)
  note T1 = touch_tap_or_drag [where item = square_item and start = "(0, 0)"
      and moves = "[(3, 0), (10, 2)]" and a = ?a and touch = "(200, 300)" and w = 80 and h = 80
      and P = any_platform and ?r1.0 = 0 and ?r2.0 = 0
      and d = "\<lparr>def_svg = ''<rect/>'', def_width = Some 80, def_height = Some 80\<rparr>",
      OF refl refl refl refl, unfolded f so]
  note T2 = touch_tap_or_drag [where item = square_item and start = "(0, 0)"
      and moves = "[(3, 0), (4, - 5)]" and a = ?a and touch = "(200, 300)" and w = 80 and h = 80
      and P = any_platform and ?r1.0 = 0 and ?r2.0 = 0
      and d = "\<lparr>def_svg = ''<rect/>'', def_width = Some 80, def_height = Some 80\<rparr>",
      OF refl refl refl refl, unfolded f so]
  from T1 have 1: "dd_isDragging (gesture square_item (0, 0) [(3, 0), (10, 2)] ?a)"
    by (simp add: DRAG_THRESHOLD_def)
  from T2 have 2: "\<not> dd_isDragging (gesture square_item (0, 0) [(3, 0), (4, - 5)] ?a)"
    by (simp add: DRAG_THRESHOLD_def)
  from T1 1 ov d shapeSize_square
  have "\<exists>a' el x y. handleTouchEnd any_platform (200, 300) 0 0
                  (gesture square_item (0, 0) [(3, 0), (10, 2)] ?a) = Inr a'
            \<and> children a' = [] @ [0]
            \<and> elements a' = (elements ?a)(0 \<mapsto> el)
            \<and> dataset_shapeType el = ''square''
            \<and> dd_touch a' = None \<and> \<not> dd_isDragging a'
            \<and> Some x = snapToGrid (Some (fst (200::real, 300::real) - 0 - 80 / 2))
            \<and> Some y = snapToGrid (Some (snd (200::real, 300::real) - 0 - 80 / 2))
            \<and> \<bar>x + 80 / 2 - (fst (200::real, 300::real) - 0)\<bar> \<le> 10
            \<and> \<bar>y + 80 / 2 - (snd (200::real, 300::real) - 0)\<bar> \<le> 10
            \<and> style_top el = Some (max 0 y)
            \<and> style_left el = snapToGrid (Some (max 0 (min x (real_of_int 400 - 80))))
            \<and> (0 \<le> x \<and> x \<le> real_of_int 400 - 80 \<longrightarrow> style_left el = Some x)"
    by blast
  then obtain a' el x y where r:
      "handleTouchEnd any_platform (200, 300) 0 0 (gesture square_item (0, 0) [(3, 0), (10, 2)] ?a) = Inr a'"
      "children a' = [] @ [0]" "elements a' = (elements ?a)(0 \<mapsto> el)"
      "dataset_shapeType el = ''square''" "dd_touch a' = None" "\<not> dd_isDragging a'"
      "Some x = snapToGrid (Some (fst (200::real, 300::real) - 0 - 80 / 2))"
      "Some y = snapToGrid (Some (snd (200::real, 300::real) - 0 - 80 / 2))"
      "style_top el = Some (max 0 y)"
      "0 \<le> x \<and> x \<le> real_of_int 400 - 80 \<longrightarrow> style_left el = Some x"
    by blast
  from r(7) have x: "x = 160" by (simp add: snapToGrid_Some)
  from r(8) have y: "y = 260" by (simp add: snapToGrid_Some)
  have 3: "\<exists>a' el. handleTouchEnd any_platform (200, 300) 0 0
                  (gesture square_item (0, 0) [(3, 0), (10, 2)] ?a) = Inr a'
         \<and> children a' = [0]
         \<and> elements a' 0 = Some el
         \<and> dataset_shapeType el = ''square''
         \<and> style_left el = Some 160 \<and> style_top el = Some 260
         \<and> dd_touch a' = None \<and> \<not> dd_isDragging a'"
    using r(1-6,9,10) unfolding x y by simp
  from T2 2 so d
  have "\<exists>a' el. handleTouchEnd any_platform (200, 300) 0 0
                  (gesture square_item (0, 0) [(3, 0), (4, - 5)] ?a) = Inr a'
            \<and> children a' = [] @ [0]
            \<and> elements a' = (elements ?a)(0 \<mapsto> el)
            \<and> dataset_shapeType el = ''square''
            \<and> dd_touch a' = None \<and> \<not> dd_isDragging a'"
    by blast
  then have 4: "\<exists>a' el. handleTouchEnd any_platform (200, 300) 0 0
                  (gesture square_item (0, 0) [(3, 0), (4, - 5)] ?a) = Inr a'
         \<and> children a' = [0]
         \<and> elements a' 0 = Some el
         \<and> dataset_shapeType el = ''square''"
    by auto
  from 1 2 ov 3 4 show ?thesis by blast
qed

section \<open>Rotation and flip\<close>

lemma show_int_values:
  "show_int 0 = ''0''" "show_int 90 = ''90''" "show_int 180 = ''180''" "show_int 270 = ''270''"
  "show_int 1 = ''1''" "show_int (- 1) = ''-1''"
  by code_simp+

lemma parseInt_values:
  "parseInt ''0'' = Some 0" "parseInt ''90'' = Some 90" "parseInt ''180'' = Some 180"
  "parseInt ''270'' = Some 270"
  by code_simp+

lemma menu_rotate_eq: "menu_rotate el = rotate_shape el"
  by (simp add: menu_rotate_def rotate_shape_def)

lemma rotation_state_cases:
  assumes "good_element el"
  shows "rotation_state el = Some 0 \<or> rotation_state el = Some 90
         \<or> rotation_state el = Some 180 \<or> rotation_state el = Some 270"
  using assms by (auto simp add: good_element_def rotation_state_def parseInt_values)

lemma rotate_step:
  assumes "rotation_state el = Some k" and "k = 0 \<or> k = 90 \<or> k = 180 \<or> k = 270"
  shows "rotate_shape el = el\<lparr>dataset_rotation := Some (show_int ((k + 90) mod 360)),
                        svg_transform := ''rotate('' @ show_int ((k + 90) mod 360) @ ''deg)'',
                        svg_transformOrigin := ''center center''\<rparr>"
proof -
  from assms(2) have "js_rem (k + 90) 360 = (k + 90) mod 360" by (auto simp add: js_rem_def)
  with assms(1) show ?thesis
    by (simp add: rotate_shape_def rotation_state_def Let_def int_str_def)
qed

lemma rotation_state_update:
  "rotation_state (el\<lparr>dataset_rotation := Some s, svg_transform := t, svg_transformOrigin := u\<rparr>)
     = parseInt (if s = [] then ''0'' else s)"
  by (simp add: rotation_state_def)

lemma rotation_state_rotate:
  assumes "rotation_state el = Some k" and "k = 0 \<or> k = 90 \<or> k = 180 \<or> k = 270"
  shows "rotation_state (rotate_shape el) = Some ((k + 90) mod 360)"
  using assms(2)
  by (auto simp add: rotate_step [OF assms] rotation_state_update show_int_values parseInt_values)

lemma quarter_next: "k = 0 \<or> k = 90 \<or> k = 180 \<or> k = 270 \<Longrightarrow>
   (k + 90) mod 360 = 0 \<or> (k + 90) mod 360 = 90 \<or> (k + 90) mod 360 = 180 \<or> (k + 90) mod 360 = (270::int)"
  by auto

lemma rotate_four:
  assumes "rotation_state el = Some k" and q: "k = 0 \<or> k = 90 \<or> k = 180 \<or> k = 270"
  shows "rotation_state (rotate_shape (rotate_shape (rotate_shape (rotate_shape el)))) = Some k"
proof -
  let ?n = "\<lambda>k::int. (k + 90) mod 360"
  have 1: "rotation_state (rotate_shape el) = Some (?n k)" by (rule rotation_state_rotate [OF assms])
  have q1: "?n k = 0 \<or> ?n k = 90 \<or> ?n k = 180 \<or> ?n k = 270" by (rule quarter_next [OF q])
  have 2: "rotation_state (rotate_shape (rotate_shape el)) = Some (?n (?n k))"
    by (rule rotation_state_rotate [OF 1 q1])
  have q2: "?n (?n k) = 0 \<or> ?n (?n k) = 90 \<or> ?n (?n k) = 180 \<or> ?n (?n k) = 270"
    by (rule quarter_next [OF q1])
  have 3: "rotation_state (rotate_shape (rotate_shape (rotate_shape el))) = Some (?n (?n (?n k)))"
    by (rule rotation_state_rotate [OF 2 q2])
  have q3: "?n (?n (?n k)) = 0 \<or> ?n (?n (?n k)) = 90 \<or> ?n (?n (?n k)) = 180 \<or> ?n (?n (?n k)) = 270"
    by (rule quarter_next [OF q2])
  have 4: "rotation_state (rotate_shape (rotate_shape (rotate_shape (rotate_shape el)))) = Some (?n (?n (?n (?n k))))"
    by (rule rotation_state_rotate [OF 3 q3])
  from q have "?n (?n (?n (?n k))) = k" by auto
  with 4 show ?thesis by simp
qed

lemma good_rotate:
  assumes "good_element el"
  shows "good_element (rotate_shape el)"
proof -
  from rotation_state_cases [OF assms]
  obtain k where k: "rotation_state el = Some k" "k = 0 \<or> k = 90 \<or> k = 180 \<or> k = 270" by auto
  from k(2) show ?thesis
    by (auto simp add: rotate_step [OF k] good_element_def show_int_values backslash_def)
qed

lemma regex_match_none:
  "backslash \<notin> set s \<Longrightarrow> regex_match name s = None"
proof (induction s)
  case Nil
  then show ?case by simp
next
  case (Cons c cs)
  have "take (length name + 1) (c # cs) \<noteq> name @ [backslash]"
  proof
    assume "take (length name + 1) (c # cs) = name @ [backslash]"
    then have "backslash \<in> set (take (length name + 1) (c # cs))" by simp
    then have "backslash \<in> set (c # cs)" by (rule in_set_takeD)
    with Cons.prems show False by simp
  qed
  with Cons show ?case by simp
qed

lemma flip_parts_plain:
  assumes "backslash \<notin> set tr"
  shows "flip_parts P direction tr =
           (''0deg'',
            (if direction = ''horizontal'' then Some (- 1) else Some 1),
            (if direction = ''horizontal'' then Some 1
             else if direction = ''vertical'' then Some (- 1) else Some 1))"
  by (simp add: flip_parts_def Let_def regex_match_none [OF assms] num2_def)

lemma num_str_ones: "num_str P (Some 1) = ''1''" "num_str P (Some (- 1)) = ''-1''"
proof -
  show "num_str P (Some 1) = ''1''" by (simp add: num_str_def show_int_values)
  have "\<lfloor>real_of_int (- 1)\<rfloor> = - 1" by (rule floor_of_int)
  then have "\<lfloor>- 1 :: real\<rfloor> = - 1" by simp
  then show "num_str P (Some (- 1)) = ''-1''" by (simp add: num_str_def show_int_values)
qed

lemma transform_after_flip:
  assumes "backslash \<notin> set tr"
  shows "transform_text P (flip_parts P ''horizontal'' tr) = ''rotate(0deg) scale(-1, 1)''"
    and "transform_text P (flip_parts P ''vertical'' tr) = ''rotate(0deg) scale(1, -1)''"
  by (simp_all add: flip_parts_plain [OF assms] transform_text_def num_str_ones)

lemma transform_text_plain:
  assumes "backslash \<notin> set tr"
  shows "backslash \<notin> set (transform_text P (flip_parts P direction tr))"
  by (simp add: flip_parts_plain [OF assms] transform_text_def num_str_ones backslash_def)

lemma good_menu_flip:
  assumes "good_element el"
  shows "good_element (menu_flip P direction el)"
  using assms transform_text_plain [of "svg_transform el" P direction]
  by (simp add: good_element_def menu_flip_def)

lemma good_flip:
  assumes "good_element el"
  shows "good_element (flip P direction el)"
  using assms transform_text_plain [of "svg_transform el" P direction]
  by (simp add: good_element_def flip_def Let_def)

lemma good_create:
  assumes "create P doc t x y container = Inr (Some el)"
  shows "good_element el"
  using assms
  by (auto simp add: create_def Let_def good_element_def split: option.splits sum.splits)

lemma good_handleMoveStart:
  "good_element el \<Longrightarrow> good_element (snd (handleMoveStart e (c, el)))"
  by (simp add: handleMoveStart_def good_element_def)

lemma good_handleMove:
  "good_element el \<Longrightarrow> good_element (snd (handleMove container e (c, el)))"
  by (simp add: handleMove_def good_element_def Let_def)


lemma heap_good_same: "elements a' = elements a \<Longrightarrow> heap_good a \<Longrightarrow> heap_good a'"
  by (simp add: heap_good_def)

lemma cm_hide_elements [simp]: "elements (cm_hide a) = elements a"
  by (simp add: cm_hide_def)

lemma heap_good_update_element:
  assumes "heap_good a" and "\<And>el. good_element el \<Longrightarrow> good_element (f el)"
  shows "heap_good (update_element r f a)"
  using assms by (auto simp add: heap_good_def update_element_def)

lemma heap_good_with_shape:
  assumes "heap_good a" and "\<And>c el. good_element el \<Longrightarrow> good_element (snd (f (c, el)))"
  shows "heap_good (with_shape r f a)"
  using assms by (auto simp add: heap_good_def with_shape_def split: option.splits)

lemma heap_good_createShape:
  assumes "heap_good a"
  shows "heap_good (settle a (createShape P t x y a))"
proof (cases "create P (palette a) t x y (buildArea a)")
  case (Inl e)
  with assms show ?thesis by (simp add: createShape_def settle_def)
next
  case (Inr res)
  show ?thesis
  proof (cases res)
    case None
    with assms Inr show ?thesis by (simp add: createShape_def settle_def)
  next
    case (Some el)
    with Inr have "good_element el" using good_create by blast
    with assms Inr Some show ?thesis by (auto simp add: createShape_def settle_def heap_good_def)
  qed
qed

lemma heap_good_tap: "heap_good a \<Longrightarrow> heap_good (settle a (handleTapToAdd P item r1 r2 a))"
  by (simp add: handleTapToAdd_def Let_def heap_good_createShape) (simp add: settle_def)

lemma heap_good_tapTouch: "heap_good a \<Longrightarrow> heap_good (settle a (handleTapToAddTouch P item r1 r2 a))"
  by (simp add: handleTapToAddTouch_def Let_def heap_good_createShape) (simp add: settle_def)

lemma heap_good_dd: "heap_good a \<Longrightarrow> heap_good (a\<lparr>dd_touch := u, dd_isDragging := v\<rparr>)"
  by (simp add: heap_good_def)

lemma heap_good_reset:
  assumes "heap_good a" and "heap_good (settle a r)"
  shows "heap_good (settle a (case r of Inl e \<Rightarrow> Inl e
                               | Inr a1 \<Rightarrow> Inr (a1\<lparr>dd_touch := u, dd_isDragging := v\<rparr>)))"
  using assms by (cases r) (simp_all add: settle_def heap_good_def)

lemma heap_good_touchEnd:
  assumes "heap_good a"
  shows "heap_good (settle a (handleTouchEnd P touch r1 r2 a))"
proof (cases "dd_touch a")
  case None
  with assms show ?thesis by (simp add: handleTouchEnd_def settle_def)
next
  case (Some st)
  obtain item sx sy where st: "st = (item, sx, sy)" by (cases st) auto
  let ?r = "if dd_isDragging a
            then (let rect = boundingClientRect (buildArea a)
                  in if isOverBuildArea touch rect
                     then createShape P (shape_of item)
                            (drop_x (shape_of item) (fst touch) rect)
                            (drop_y (shape_of item) (snd touch) rect) a
                     else Inr a)
            else handleTapToAddTouch P item r1 r2 a"
  have "heap_good (settle a ?r)"
    using assms heap_good_createShape [OF assms] heap_good_tapTouch [OF assms]
    by (simp add: Let_def settle_def)
  then have "heap_good (settle a (case ?r of Inl e \<Rightarrow> Inl e
                | Inr a1 \<Rightarrow> Inr (a1\<lparr>dd_touch := None, dd_isDragging := False\<rparr>)))"
    by (rule heap_good_reset [OF assms])
  then show ?thesis by (simp add: handleTouchEnd_def Some st)
qed

lemma good_selected: "good_element (el\<lparr>class_selected := b\<rparr>) = good_element el"
  by (simp add: good_element_def)

lemma heap_good_handleClick:
  assumes "heap_good a"
  shows "heap_good (handleClick r a)"
  unfolding heap_good_def
proof (intro allI impI)
  fix q el
  assume e: "elements (handleClick r a) q = Some el"
  then obtain el0 where 0: "elements a q = Some el0"
    and "el = el0 \<or> el = el0\<lparr>class_selected := True\<rparr> \<or> el = el0\<lparr>class_selected := False\<rparr>"
    by (cases "elements a q") (auto simp add: handleClick_def split: if_splits)
  moreover from 0 assms have "good_element el0" by (simp add: heap_good_def)
  ultimately show "good_element el" by (auto simp add: good_selected)
qed

lemma heap_good_controllers: "heap_good a \<Longrightarrow> heap_good (a\<lparr>controllers := cs\<rparr>)"
  by (simp add: heap_good_def)

lemma good_cursor:
  "good_element el \<Longrightarrow> good_element (el\<lparr>style_cursor := u, style_zIndex := v\<rparr>)"
  by (simp add: good_element_def)

lemma heap_good_moveEnd:
  assumes "heap_good a"
  shows "heap_good (handleMoveEnd r a)"
proof (cases "controllers a r")
  case None
  with assms show ?thesis by (simp add: handleMoveEnd_def)
next
  case (Some c)
  let ?a1 = "update_element r (\<lambda>el. el\<lparr>style_cursor := ''move'', style_zIndex := ''10''\<rparr>) a"
  have 1: "heap_good ?a1" using assms by (rule heap_good_update_element) (rule good_cursor)
  then have 2: "heap_good (handleClick r ?a1)" by (rule heap_good_handleClick)
  show ?thesis
  proof (cases "sc_isDragging c")
    case True
    with Some 1 2 show ?thesis
      by (simp add: handleMoveEnd_def Let_def heap_good_controllers)
  next
    case False
    with Some assms show ?thesis by (simp add: handleMoveEnd_def)
  qed
qed

lemma heap_good_cm_hide: "heap_good a \<Longrightarrow> heap_good (cm_hide a)"
  by (simp add: heap_good_def)

lemma heap_good_menu_destroy: "heap_good a \<Longrightarrow> heap_good (menu_destroy r a)"
  by (simp add: heap_good_def menu_destroy_def)

lemma heap_good_handleAction:
  assumes "heap_good a"
  shows "heap_good (handleAction P button a)"
proof (cases button)
  case None
  with assms show ?thesis by (simp add: handleAction_def)
next
  case (Some action)
  show ?thesis
  proof (cases "cm_currentShape a")
    case None
    with Some assms show ?thesis by (simp add: handleAction_def)
  next
    case (Some r)
    have 1: "heap_good (update_element r menu_rotate a)"
      using assms by (rule heap_good_update_element) (simp add: menu_rotate_eq good_rotate)
    have 2: "\<And>d. heap_good (update_element r (menu_flip P d) a)"
      using assms by (rule heap_good_update_element) (rule good_menu_flip)
    have 3: "heap_good (menu_destroy r a)" using assms by (rule heap_good_menu_destroy)
    from 1 2 3 assms \<open>button = Some action\<close> Some show ?thesis
      by (simp add: handleAction_def heap_good_cm_hide)
  qed
qed

lemma heap_good_step: "heap_good a \<Longrightarrow> heap_good (step P act a)"
proof (cases act)
  case (Tap item r1 r2)
  assume "heap_good a" with Tap show ?thesis by (simp add: heap_good_tap)
next
  case (TouchStart item touch)
  assume "heap_good a" with TouchStart show ?thesis by (simp add: handleTouchStart_def heap_good_def)
next
  case (TouchMove touch)
  assume "heap_good a" with TouchMove show ?thesis
    by (auto simp add: handleTouchMove_def Let_def heap_good_def split: option.splits)
next
  case (TouchEnd touch r1 r2)
  assume "heap_good a" with TouchEnd show ?thesis by (simp add: heap_good_touchEnd)
next
  case (Drop shapeType pos)
  assume "heap_good a" with Drop show ?thesis by (simp add: handleDrop_def Let_def heap_good_createShape)
next
  case (MoveStart r e)
  assume "heap_good a" with MoveStart show ?thesis
    by (simp add: heap_good_with_shape good_handleMoveStart)
next
  case (Move r e)
  assume "heap_good a" with Move show ?thesis
    by (simp add: heap_good_with_shape good_handleMove)
next
  case (MoveEnd r)
  assume "heap_good a" with MoveEnd show ?thesis by (simp add: heap_good_moveEnd)
next
  case (ContextMenu r)
  assume "heap_good a" with ContextMenu show ?thesis
    by (simp add: heap_good_update_element good_rotate)
next
  case (ShowContextMenu r)
  assume "heap_good a" with ShowContextMenu show ?thesis
    by (simp add: cm_show_def heap_good_def)
next
  case (MenuClick button)
  assume "heap_good a" with MenuClick show ?thesis by (simp add: heap_good_handleAction)
next
  case OutsideClick
  assume "heap_good a" with OutsideClick show ?thesis by (simp add: heap_good_def)
next
  case (KeyDown key)
  assume "heap_good a" with KeyDown show ?thesis
    by (simp add: handleKeydown_def clearAllShapes_def deleteSelectedShape_def heap_good_def
          split: option.splits)
next
  case ClearAllButton
  assume "heap_good a" with ClearAllButton show ?thesis
    by (simp add: clearAllShapes_def heap_good_def)
next
  case PrintButton
  assume "heap_good a" with PrintButton show ?thesis by (simp add: heap_good_def)
next
  case (Layout ba)
  assume "heap_good a" with Layout show ?thesis by (simp add: heap_good_def)
qed

lemma heap_good_run: "heap_good a \<Longrightarrow> heap_good (run P acts a)"
  unfolding run_def
  by (induction acts arbitrary: a) (simp_all add: heap_good_step)

lemma heap_good_init: "heap_good (init_app doc ba)"
  by (simp add: heap_good_def init_app_def)

lemma reachable_good:
  "elements (run P acts (init_app doc ba)) r = Some el \<Longrightarrow> good_element el"
  using heap_good_run [OF heap_good_init, of P acts doc ba] by (simp add: heap_good_def)

lemma elements_update_element:
  "elements (update_element r f a) q = (if q = r then map_option f (elements a r) else elements a q)"
  by (simp add: update_element_def)

lemma tap_00_elements:
  "elements (settle (init_app sample_palette (area_of_width 400))
               (handleTapToAdd any_platform square_item 0 0
                  (init_app sample_palette (area_of_width 400)))) 0
     = Some ((shape_of_type ''square'')\<lparr>style_left := Some 140, style_top := Some 240\<rparr>)"
  by (simp add: tap_square_00 settle_def)

lemma rotated_square_reached:
  "elements (run any_platform [Tap square_item 0 0, ContextMenu 0]
               (init_app sample_palette (area_of_width 400))) 0 = Some rotated_square"
proof -
  let ?E = "(shape_of_type ''square'')\<lparr>style_left := Some 140, style_top := Some 240\<rparr>"
  have "rotation_state ?E = Some 0"
    by (simp add: rotation_state_def shape_of_type_def parseInt_values)
  then have "rotate_shape ?E = rotated_square"
    by (simp add: rotate_step show_int_values rotated_square_def shape_of_type_def)
  then show ?thesis
    by (simp add: run_def elements_update_element tap_00_elements)
qed

text \<open>
  Claim C7. Every shape element of every state the page reaches from its initial state has
  a rotation state in \<open>{0, 90, 180, 270}\<close> (0 while \<open>dataset.rotation\<close> is unset);
  \<open>rotate\<close>, in \<open>ShapeController\<close> and in the context menu alike, maps the rotation
  \<open>r\<close> to \<open>(r + 90) mod 360\<close>, and four rotations in a row restore the rotation state.
\<close>

theorem rotation_quarter_turns:
  assumes "elements (run P acts (init_app doc ba)) r = Some el"
  shows "(rotation_state el = Some 0 \<or> rotation_state el = Some 90
            \<or> rotation_state el = Some 180 \<or> rotation_state el = Some 270)
     \<and> rotation_state (rotate_shape el) = map_option (\<lambda>k. (k + 90) mod 360) (rotation_state el)
     \<and> menu_rotate el = rotate_shape el
     \<and> rotation_state (rotate_shape (rotate_shape (rotate_shape (rotate_shape el)))) = rotation_state el"
proof -
  from assms have g: "good_element el" by (rule reachable_good)
  from rotation_state_cases [OF g]
  obtain k where k: "rotation_state el = Some k" "k = 0 \<or> k = 90 \<or> k = 180 \<or> k = 270" by auto
  have 1: "rotation_state (rotate_shape el) = map_option (\<lambda>k. (k + 90) mod 360) (rotation_state el)"
    using rotation_state_rotate [OF k] k(1) by simp
  have 2: "rotation_state (rotate_shape (rotate_shape (rotate_shape (rotate_shape el)))) = rotation_state el"
    using rotate_four [OF k] k(1) by simp
  from k 1 2 menu_rotate_eq show ?thesis by auto
qed

theorem rotation_quarter_turns_witness:
  "elements (run any_platform [Tap square_item 0 0, ContextMenu 0]
               (init_app sample_palette (area_of_width 400))) 0 = Some rotated_square
   \<and> rotation_state rotated_square = Some 90
   \<and> rotation_state (rotate_shape rotated_square) = Some 180
   \<and> rotation_state (rotate_shape (rotate_shape (rotate_shape (rotate_shape rotated_square)))) = Some 90"
proof -
  have s: "rotation_state rotated_square = Some 90"
    by (simp add: rotation_state_def rotated_square_def parseInt_values)
  from rotation_quarter_turns [OF rotated_square_reached] s rotated_square_reached
  show ?thesis by simp
qed

text \<open>
  Claim C8 fails on the code. For every shape element the page can hold, \<open>flip\<close> (in
  \<open>ShapeController\<close> and in the context menu) finds neither \<open>rotate(...)\<close> nor
  \<open>scale(...)\<close> in the transform, because the two regular expressions ask for backslash
  characters; it therefore writes \<open>rotate(0deg) scale(-1, 1)\<close> for a horizontal and
  \<open>rotate(0deg) scale(1, -1)\<close> for a vertical flip whatever the transform was: the
  rotation component is reset to \<open>0deg\<close>, and a second flip in the same direction
  writes the same text again instead of restoring the scale.
\<close>

theorem flip_overwrites_transform:
  assumes "elements (run P acts (init_app doc ba)) r = Some el"
  shows "svg_transform (flip P ''horizontal'' el) = ''rotate(0deg) scale(-1, 1)''
     \<and> svg_transform (flip P ''vertical'' el) = ''rotate(0deg) scale(1, -1)''
     \<and> svg_transform (menu_flip P ''horizontal'' el) = ''rotate(0deg) scale(-1, 1)''
     \<and> svg_transform (menu_flip P ''vertical'' el) = ''rotate(0deg) scale(1, -1)''
     \<and> svg_transform (menu_flip P ''horizontal'' (menu_flip P ''horizontal'' el))
         = ''rotate(0deg) scale(-1, 1)''
     \<and> svg_transform (menu_flip P ''vertical'' (menu_flip P ''vertical'' el))
         = ''rotate(0deg) scale(1, -1)''"
proof -
  from assms have "good_element el" by (rule reachable_good)
  then have b: "backslash \<notin> set (svg_transform el)" by (simp add: good_element_def)
  have h: "backslash \<notin> set ''rotate(0deg) scale(-1, 1)''" by (simp add: backslash_def)
  have v: "backslash \<notin> set ''rotate(0deg) scale(1, -1)''" by (simp add: backslash_def)
  have 1: "svg_transform (flip P ''horizontal'' el) = ''rotate(0deg) scale(-1, 1)''"
    by (simp add: flip_def Let_def transform_after_flip [OF b])
  have 2: "svg_transform (flip P ''vertical'' el) = ''rotate(0deg) scale(1, -1)''"
    by (simp add: flip_def Let_def transform_after_flip [OF b])
  have 3: "svg_transform (menu_flip P ''horizontal'' el) = ''rotate(0deg) scale(-1, 1)''"
    by (simp add: menu_flip_def transform_after_flip [OF b])
  have 4: "svg_transform (menu_flip P ''vertical'' el) = ''rotate(0deg) scale(1, -1)''"
    by (simp add: menu_flip_def transform_after_flip [OF b])
  have 5: "svg_transform (menu_flip P ''horizontal'' (menu_flip P ''horizontal'' el))
         = ''rotate(0deg) scale(-1, 1)''"
    using transform_after_flip(1) [OF h, of P] by (simp add: menu_flip_def [of P _ "menu_flip P ''horizontal'' el"] 3)
  have 6: "svg_transform (menu_flip P ''vertical'' (menu_flip P ''vertical'' el))
         = ''rotate(0deg) scale(1, -1)''"
    using transform_after_flip(2) [OF v, of P] by (simp add: menu_flip_def [of P _ "menu_flip P ''vertical'' el"] 4)
  from 1 2 3 4 5 6 show ?thesis by simp
qed

theorem flip_overwrites_transform_witness:
  "elements (run any_platform [Tap square_item 0 0, ContextMenu 0]
               (init_app sample_palette (area_of_width 400))) 0 = Some rotated_square
   \<and> svg_transform rotated_square = ''rotate(90deg)''
   \<and> svg_transform (menu_flip any_platform ''horizontal'' rotated_square) = ''rotate(0deg) scale(-1, 1)''
   \<and> svg_transform (menu_flip any_platform ''horizontal''
        (menu_flip any_platform ''horizontal'' rotated_square)) = ''rotate(0deg) scale(-1, 1)''"
proof -
  have t: "svg_transform rotated_square = ''rotate(90deg)''" by (simp add: rotated_square_def)
  from flip_overwrites_transform [OF rotated_square_reached] t rotated_square_reached
  show ?thesis by simp
qed

section \<open>Frame of rotate and flip; creation and removal\<close>

lemma cm_hide_frame [simp]:
  "children (cm_hide a) = children a" "next_ref (cm_hide a) = next_ref a"
  by (simp_all add: cm_hide_def)

lemma update_element_frame [simp]:
  "children (update_element r f a) = children a" "next_ref (update_element r f a) = next_ref a"
  "cm_currentShape (update_element r f a) = cm_currentShape a"
  "cm_menu (update_element r f a) = cm_menu a"
  by (simp_all add: update_element_def)

lemma with_shape_frame [simp]:
  "children (with_shape r f a) = children a" "next_ref (with_shape r f a) = next_ref a"
  by (simp_all add: with_shape_def split: option.splits)

lemma handleClick_frame [simp]:
  "children (handleClick r a) = children a" "next_ref (handleClick r a) = next_ref a"
  by (simp_all add: handleClick_def)

lemma handleMoveEnd_frame [simp]:
  "children (handleMoveEnd r a) = children a" "next_ref (handleMoveEnd r a) = next_ref a"
  by (simp_all add: handleMoveEnd_def Let_def split: option.splits)

lemma createShape_children:
  "children (settle a (createShape P t x y a)) = children a
   \<or> children (settle a (createShape P t x y a)) = children a @ [next_ref a]"
  by (simp add: createShape_def settle_def split: option.splits sum.splits)

lemma handleTapToAddTouch_children:
  "children (settle a (handleTapToAddTouch P item r1 r2 a)) = children a
   \<or> children (settle a (handleTapToAddTouch P item r1 r2 a)) = children a @ [next_ref a]"
proof (cases "no_shapeType item")
  case True
  then show ?thesis by (simp add: handleTapToAddTouch_def settle_def)
next
  case False
  then show ?thesis using createShape_children by (simp add: handleTapToAddTouch_def Let_def)
qed

lemma handleTapToAdd_children:
  "children (settle a (handleTapToAdd P item r1 r2 a)) = children a
   \<or> children (settle a (handleTapToAdd P item r1 r2 a)) = children a @ [next_ref a]"
  using handleTapToAddTouch_children [of a P item r1 r2] by (simp add: tapTouch_eq)

lemma settle_reset_children:
  "children (settle a (case r of Inl e \<Rightarrow> Inl e
                        | Inr a1 \<Rightarrow> Inr (a1\<lparr>dd_touch := u, dd_isDragging := v\<rparr>)))
     = children (settle a r)"
  by (cases r) (simp_all add: settle_def)

lemma handleTouchEnd_children:
  "children (settle a (handleTouchEnd P touch r1 r2 a)) = children a
   \<or> children (settle a (handleTouchEnd P touch r1 r2 a)) = children a @ [next_ref a]"
proof (cases "dd_touch a")
  case None
  then show ?thesis by (simp add: handleTouchEnd_def settle_def)
next
  case (Some st)
  obtain item sx sy where st: "st = (item, sx, sy)" by (cases st) auto
  let ?r = "if dd_isDragging a
            then (let rect = boundingClientRect (buildArea a)
                  in if isOverBuildArea touch rect
                     then createShape P (shape_of item)
                            (drop_x (shape_of item) (fst touch) rect)
                            (drop_y (shape_of item) (snd touch) rect) a
                     else Inr a)
            else handleTapToAddTouch P item r1 r2 a"
  have r: "children (settle a ?r) = children a \<or> children (settle a ?r) = children a @ [next_ref a]"
    using createShape_children [of a P] handleTapToAddTouch_children [of a P item r1 r2]
    by (simp add: Let_def) (simp add: settle_def)
  have "handleTouchEnd P touch r1 r2 a
          = (case ?r of Inl e \<Rightarrow> Inl e
             | Inr a1 \<Rightarrow> Inr (a1\<lparr>dd_touch := None, dd_isDragging := False\<rparr>))"
    by (simp add: handleTouchEnd_def Some st)
  then have "children (settle a (handleTouchEnd P touch r1 r2 a)) = children (settle a ?r)"
    by (simp only: settle_reset_children)
  with r show ?thesis by simp
qed

lemma handleDrop_children:
  "children (settle a (handleDrop P t pos a)) = children a
   \<or> children (settle a (handleDrop P t pos a)) = children a @ [next_ref a]"
  using createShape_children by (simp add: handleDrop_def Let_def)

lemma handleAction_children:
  "children (handleAction P button a) = children a
   \<or> (button = Some ''delete'' \<and> (\<exists>r. children (handleAction P button a) = removeAll r (children a)))"
  by (auto simp add: handleAction_def menu_destroy_def split: option.splits)

lemma handleAction_next_ref [simp]: "next_ref (handleAction P button a) = next_ref a"
  by (simp add: handleAction_def menu_destroy_def split: option.splits)

lemma handleKeydown_children:
  "children (handleKeydown key a) = children a
   \<or> ((key = ''Escape'' \<or> key = ''Delete'' \<or> key = ''Backspace'')
       \<and> (children (handleKeydown key a) = [] \<or> (\<exists>r. children (handleKeydown key a) = removeAll r (children a))))"
  by (auto simp add: handleKeydown_def clearAllShapes_def deleteSelectedShape_def split: option.splits)

lemma handleKeydown_next_ref [simp]: "next_ref (handleKeydown key a) = next_ref a"
  by (simp add: handleKeydown_def clearAllShapes_def deleteSelectedShape_def split: option.splits)

lemma no_creation:
  assumes "\<not> is_place act"
  shows "set (children (step P act a)) \<subseteq> set (children a) \<and> next_ref (step P act a) = next_ref a"
proof (cases act)
  case (MenuClick button)
  with handleAction_children [of P button a] show ?thesis by auto
next
  case (KeyDown key)
  with handleKeydown_children [of key a] show ?thesis by auto
qed (use assms in \<open>simp_all add: handleTouchStart_def handleTouchMove_def Let_def cm_show_def
        clearAllShapes_def split: option.splits prod.splits\<close>)

lemma no_removal:
  assumes "\<not> is_remove act"
  shows "set (children a) \<subseteq> set (children (step P act a))"
proof (cases act)
  case (Tap item r1 r2)
  with handleTapToAdd_children [of a P item r1 r2] show ?thesis by auto
next
  case (TouchEnd touch r1 r2)
  with handleTouchEnd_children [of a P touch r1 r2] show ?thesis by auto
next
  case (Drop t pos)
  with handleDrop_children [of a P t pos] show ?thesis by auto
next
  case (MenuClick button)
  with assms handleAction_children [of P button a] show ?thesis by auto
next
  case (KeyDown key)
  with assms handleKeydown_children [of key a] show ?thesis by auto
qed (use assms in \<open>simp_all add: handleTouchStart_def handleTouchMove_def Let_def cm_show_def
        split: option.splits prod.splits\<close>)

lemma only_changed_refl: "only_rotation_flip_changed el el"
  by (simp add: only_rotation_flip_changed_def)

lemma only_changed_rotate: "only_rotation_flip_changed el (rotate_shape el)"
  by (simp add: only_rotation_flip_changed_def rotate_shape_def Let_def)

lemma only_changed_menu_flip: "only_rotation_flip_changed el (menu_flip P d el)"
  by (simp add: only_rotation_flip_changed_def menu_flip_def)

lemma only_changed_flip: "only_rotation_flip_changed el (flip P d el)"
  by (simp add: only_rotation_flip_changed_def flip_def Let_def)

lemma update_element_only:
  assumes "\<And>el. only_rotation_flip_changed el (f el)"
  shows "(\<forall>q. q \<noteq> r \<longrightarrow> elements (update_element r f a) q = elements a q)
       \<and> (\<forall>q el. elements a q = Some el \<longrightarrow>
             (\<exists>el'. elements (update_element r f a) q = Some el' \<and> only_rotation_flip_changed el el'))
       \<and> (\<forall>q. elements a q = None \<longrightarrow> elements (update_element r f a) q = None)"
  using assms only_changed_refl by (auto simp add: update_element_def)

lemma rotate_flip_step:
  assumes "is_rotate_or_flip act"
  shows "children (step P act a) = children a
       \<and> (\<forall>q. target a act \<noteq> Some q \<longrightarrow> elements (step P act a) q = elements a q)
       \<and> (\<forall>q el. elements a q = Some el \<longrightarrow>
             (\<exists>el'. elements (step P act a) q = Some el' \<and> only_rotation_flip_changed el el'))
       \<and> (\<forall>q. elements a q = None \<longrightarrow> elements (step P act a) q = None)"
proof (cases act)
  case (ContextMenu r)
  with update_element_only [of rotate_shape r a, OF only_changed_rotate] show ?thesis by simp
next
  case (MenuClick button)
  show ?thesis
  proof (cases "cm_currentShape a")
    case None
    with MenuClick only_changed_refl show ?thesis
      by (simp add: handleAction_def split: option.splits)
  next
    case (Some r)
    have rot: "\<And>el. only_rotation_flip_changed el (menu_rotate el)"
      by (simp add: menu_rotate_eq only_changed_rotate)
    from assms MenuClick have "button = Some ''rotate'' \<or> button = Some ''flip-horizontal''
        \<or> button = Some ''flip-vertical''" by simp
    then show ?thesis
    proof (elim disjE)
      assume "button = Some ''rotate''"
      with MenuClick Some update_element_only [of menu_rotate r a, OF rot] show ?thesis
        by (simp add: handleAction_def)
    next
      assume "button = Some ''flip-horizontal''"
      with MenuClick Some
        update_element_only [of "menu_flip P ''horizontal''" r a, OF only_changed_menu_flip]
      show ?thesis by (simp add: handleAction_def)
    next
      assume "button = Some ''flip-vertical''"
      with MenuClick Some
        update_element_only [of "menu_flip P ''vertical''" r a, OF only_changed_menu_flip]
      show ?thesis by (simp add: handleAction_def)
    qed
  qed
qed (use assms in simp_all)

text \<open>
  Claim C6. A rotate or flip action (the \<open>contextmenu\<close> handler of a shape, or the
  context menu items rotate, flip-horizontal and flip-vertical) leaves the list of
  placed shapes as it is, changes no element other than its target, creates none, and
  changes of its target at most \<open>dataset.rotation\<close>, \<open>dataset.flippedH\<close>,
  \<open>dataset.flippedV\<close> and the \<open>svg\<close> transform styles: type and position stay.
  The same holds of \<open>ShapeController.rotate\<close> and \<open>ShapeController.flip\<close> on an
  element. An action that is not a place action (click or touch on a palette item, drop)
  adds no shape, and an action that is not a delete or clear-all (context menu delete,
  Escape, Delete, Backspace, the clear button) removes none.
\<close>

theorem rotate_flip_frame:
  "(is_rotate_or_flip act \<longrightarrow>
      children (step P act a) = children a
      \<and> (\<forall>q. target a act \<noteq> Some q \<longrightarrow> elements (step P act a) q = elements a q)
      \<and> (\<forall>q el. elements a q = Some el \<longrightarrow>
            (\<exists>el'. elements (step P act a) q = Some el' \<and> only_rotation_flip_changed el el'))
      \<and> (\<forall>q. elements a q = None \<longrightarrow> elements (step P act a) q = None))
   \<and> only_rotation_flip_changed el (rotate_shape el)
   \<and> only_rotation_flip_changed el (flip P d el)
   \<and> (\<not> is_place act \<longrightarrow>
        set (children (step P act a)) \<subseteq> set (children a) \<and> next_ref (step P act a) = next_ref a)
   \<and> (\<not> is_remove act \<longrightarrow> set (children a) \<subseteq> set (children (step P act a)))"
  using rotate_flip_step [of act P a] no_creation [of act P a] no_removal [of act a P]
    only_changed_rotate [of el] only_changed_flip [of el P d]
  by blast

theorem rotate_flip_frame_witness:
  "is_rotate_or_flip (ContextMenu 0) \<and> \<not> is_place (ContextMenu 0) \<and> \<not> is_remove (ContextMenu 0)
   \<and> children (step any_platform (ContextMenu 0)
         (step any_platform (Tap square_item 0 0) (init_app sample_palette (area_of_width 400))))
       = children (step any_platform (Tap square_item 0 0) (init_app sample_palette (area_of_width 400)))
   \<and> elements (step any_platform (ContextMenu 0)
         (step any_platform (Tap square_item 0 0) (init_app sample_palette (area_of_width 400)))) 1
       = elements (step any_platform (Tap square_item 0 0) (init_app sample_palette (area_of_width 400))) 1
   \<and> (\<exists>el'. elements (step any_platform (ContextMenu 0)
                 (step any_platform (Tap square_item 0 0)
                    (init_app sample_palette (area_of_width 400)))) 0
               = Some el'
          \<and> only_rotation_flip_changed
               ((shape_of_type ''square'')\<lparr>style_left := Some 140, style_top := Some 240\<rparr>) el')
   \<and> next_ref (step any_platform (ContextMenu 0)
         (step any_platform (Tap square_item 0 0) (init_app sample_palette (area_of_width 400))))
       = next_ref (step any_platform (Tap square_item 0 0) (init_app sample_palette (area_of_width 400)))"
proof -
  let ?a = "step any_platform (Tap square_item 0 0) (init_app sample_palette (area_of_width 400))"
  let ?E = "(shape_of_type ''square'')\<lparr>style_left := Some 140, style_top := Some 240\<rparr>"
  have f: "is_rotate_or_flip (ContextMenu 0)" "\<not> is_place (ContextMenu 0)"
    "\<not> is_remove (ContextMenu 0)" "target ?a (ContextMenu 0) \<noteq> Some 1"
    by simp_all
  have e: "elements ?a 0 = Some ?E" using tap_00_elements by simp
  note T = rotate_flip_frame [where act = "ContextMenu 0" and P = any_platform and a = ?a
      and el = ?E and d = "''horizontal''"]
  from T f have 1: "children (step any_platform (ContextMenu 0) ?a) = children ?a" by blast
  from T f have 2: "elements (step any_platform (ContextMenu 0) ?a) 1 = elements ?a 1" by blast
  from T f e
  have 3: "\<exists>el'. elements (step any_platform (ContextMenu 0) ?a) 0 = Some el'
          \<and> only_rotation_flip_changed ?E el'" by blast
  from T f have 4: "next_ref (step any_platform (ContextMenu 0) ?a) = next_ref ?a" by blast
  from f 1 2 3 4 show ?thesis by blast
qed

section \<open>Print: the fallback when the capture fails\<close>

lemma captureAsImage_returns: "snd (captureAsImage env) = Returned"
  by (cases "capture_try env"; cases "snd (capture_try env)")
     (simp_all add: captureAsImage_def)

lemma capture_try_cases:
  "capture_try env = ([], Thrown) \<or> capture_try env = ([AppendScript], Thrown)
   \<or> capture_try env = ([RenderCard], Thrown) \<or> capture_try env = ([AppendScript, RenderCard], Thrown)
   \<or> capture_try env = ([RenderCard, ToBlob], Thrown)
   \<or> capture_try env = ([AppendScript, RenderCard, ToBlob], Thrown)
   \<or> capture_try env = ([RenderCard, ToBlob], Returned)
   \<or> capture_try env = ([AppendScript, RenderCard, ToBlob], Returned)"
  by (simp add: capture_try_def Let_def)

lemma capture_failure_trace:
  assumes "snd (capture_try env) = Thrown"
  shows "fst (captureAsImage env) = fst (capture_try env) @ [ConsoleError, Alert]
       \<and> count_list (fst (captureAsImage env)) Alert = 1
       \<and> count_list (fst (captureAsImage env)) ConsoleError = 1
       \<and> count_list (fst (captureAsImage env)) RenderCard \<le> 1
       \<and> count_list (fst (captureAsImage env)) AppendScript \<le> 1"
  using assms capture_try_cases [of env]
  by (elim disjE) (simp_all add: captureAsImage_def showFallbackInstructions_def)

lemma capture_causes:
  "(\<not> html2canvas_defined env \<and> \<not> script_in_document env \<and> \<not> script_loads env)
     \<or> \<not> render_succeeds env \<Longrightarrow> snd (capture_try env) = Thrown"
  by (auto simp add: capture_try_def Let_def)

lemma capture_success: "snd (capture_try env) = Returned \<Longrightarrow>
   captureAsImage env = capture_try env \<and> count_list (fst (captureAsImage env)) Alert = 0"
  using capture_try_cases [of env]
  by (elim disjE) (simp_all add: captureAsImage_def)

text \<open>
  Claim C10. \<open>captureAsImage\<close> always returns (its promise is never rejected). When the
  script fails to load or the rendering throws, or anything else in the \<open>try\<close> block
  throws, the effects are those up to the throw followed by one \<open>console.error\<close> and
  one \<open>alert\<close> with the screenshot instructions, and nothing after: the script is
  appended and the card rendered at most once. When nothing throws there is no alert.
\<close>

theorem capture_failure_fallback_once:
  "snd (captureAsImage env) = Returned
   \<and> ((\<not> html2canvas_defined env \<and> \<not> script_in_document env \<and> \<not> script_loads env)
        \<or> \<not> render_succeeds env \<longrightarrow> snd (capture_try env) = Thrown)
   \<and> (snd (capture_try env) = Thrown \<longrightarrow>
         fst (captureAsImage env) = fst (capture_try env) @ [ConsoleError, Alert]
         \<and> count_list (fst (captureAsImage env)) Alert = 1
         \<and> count_list (fst (captureAsImage env)) ConsoleError = 1
         \<and> count_list (fst (captureAsImage env)) RenderCard \<le> 1
         \<and> count_list (fst (captureAsImage env)) AppendScript \<le> 1)
   \<and> (snd (capture_try env) = Returned \<longrightarrow> count_list (fst (captureAsImage env)) Alert = 0)"
  using captureAsImage_returns capture_causes capture_failure_trace capture_success by blast

theorem capture_failure_fallback_once_witness:
  "captureAsImage failing_load = ([AppendScript, ConsoleError, Alert], Returned)
   \<and> captureAsImage failing_render = ([RenderCard, ConsoleError, Alert], Returned)
   \<and> count_list (fst (captureAsImage failing_load)) Alert = 1
   \<and> count_list (fst (captureAsImage failing_render)) Alert = 1"
proof -
  have 1: "captureAsImage failing_load = ([AppendScript, ConsoleError, Alert], Returned)"
    by (simp add: captureAsImage_def capture_try_def failing_load_def showFallbackInstructions_def)
  have 2: "captureAsImage failing_render = ([RenderCard, ConsoleError, Alert], Returned)"
    by (simp add: captureAsImage_def capture_try_def failing_render_def showFallbackInstructions_def)
  have a: "\<not> html2canvas_defined failing_load \<and> \<not> script_in_document failing_load \<and> \<not> script_loads failing_load"
    by (simp add: failing_load_def)
  have b: "\<not> render_succeeds failing_render" by (simp add: failing_render_def)
  from capture_failure_fallback_once [of failing_load] a
  have 3: "count_list (fst (captureAsImage failing_load)) Alert = 1" by blast
  from capture_failure_fallback_once [of failing_render] b
  have 4: "count_list (fst (captureAsImage failing_render)) Alert = 1" by blast
  from 1 2 3 4 show ?thesis by blast
qed

end
